theory Spec2Isabelle
  imports Complex_Main
begin

section \<open>Python values and failures\<close>

text \<open>
  The exceptions the two modules can raise from their own statements. A run of a function
  is a value of \<open>error + 'a\<close>: \<open>Inl e\<close> is the uncaught exception, \<open>Inr x\<close> the returned value.
\<close>

datatype error =
    KeyError string
  | IndexError
  | AttributeError
  | TypeError
  | ValueError
  | ZeroDivisionError

definition try_bind :: "error + 'a \<Rightarrow> ('a \<Rightarrow> error + 'b) \<Rightarrow> error + 'b" where
  "try_bind m f = (case m of Inl e \<Rightarrow> Inl e | Inr x \<Rightarrow> f x)"

text \<open>\<open>d[k]\<close> on a dict.\<close>

definition getitem :: "(string \<rightharpoonup> 'v) \<Rightarrow> string \<Rightarrow> error + 'v" where
  "getitem d k = (case d k of None \<Rightarrow> Inl (KeyError k) | Some v \<Rightarrow> Inr v)"

text \<open>A tuple display \<open>(d[k1], d[k2], ...)\<close>: the subscripts are evaluated left to right.\<close>

fun getitems :: "(string \<rightharpoonup> 'v) \<Rightarrow> string list \<Rightarrow> error + 'v list" where
  "getitems d [] = Inr []"
| "getitems d (k # ks) =
     try_bind (getitem d k) (\<lambda>v. try_bind (getitems d ks) (\<lambda>vs. Inr (v # vs)))"

text \<open>\<open>t[i]\<close> on a tuple or list, for the non-negative literal indices the code uses.\<close>

definition index :: "'a list \<Rightarrow> nat \<Rightarrow> error + 'a" where
  "index xs i = (if i < length xs then Inr (xs ! i) else Inl IndexError)"

text \<open>\<open>d[k].append(v)\<close> on a dict of lists.\<close>

definition append_item :: "(string \<rightharpoonup> 'v list) \<Rightarrow> string \<Rightarrow> 'v \<Rightarrow> error + (string \<rightharpoonup> 'v list)" where
  "append_item d k v = try_bind (getitem d k) (\<lambda>xs. Inr (d(k \<mapsto> xs @ [v])))"

text \<open>The slice \<open>xs[s:]\<close>: a negative start counts from the end and is clamped at 0.\<close>

definition slice_from :: "int \<Rightarrow> 'a list \<Rightarrow> 'a list" where
  "slice_from s xs =
     (if s < 0 then drop (nat (int (length xs) + s)) xs else drop (nat s) xs)"

text \<open>
  \<open>np.mean\<close> of a one-dimensional sequence, over the reals. On an empty sequence numpy
  warns and returns \<open>nan\<close>, which is \<open>None\<close> here.
\<close>

definition np_mean :: "real list \<Rightarrow> real option" where
  "np_mean xs = (if xs = [] then None else Some (sum_list xs / real (length xs)))"


section \<open>deep\_bayes/training.py\<close>

text \<open>
  Scalars (losses, gradient entries) are real numbers. A tensor handed between the data
  source, the model and the loss function is a value of an arbitrary type \<open>'t\<close>; the weights,
  together with the optimizer's slots and the global step, are a value of type \<open>'w\<close>.
  A list of gradients has one flattened tensor per trainable variable.
\<close>

type_synonym gradients = "real list list"

text \<open>
  The callables the loops are handed or import: the model (\<open>model(*inputs)\<close> and the
  \<open>model.losses\<close> it declares during that call), the loss function, the gradient tape
  (which differentiates the computation recorded inside the \<open>with\<close> block, a function of the
  weights), and \<open>clip_gradients\<close> and \<open>apply_gradients\<close> of \<open>deep_bayes/utils.py\<close>.
\<close>

record ('w, 't) learner =
  model_call :: "'w \<Rightarrow> 't list \<Rightarrow> (string \<rightharpoonup> 't)"
  model_losses :: "'w \<Rightarrow> 't list \<Rightarrow> real list"
  loss_fun :: "'t list \<Rightarrow> real"
  tape_gradient :: "('w \<Rightarrow> error + real) \<Rightarrow> 'w \<Rightarrow> gradients"
  clip_gradients :: "gradients \<Rightarrow> real \<Rightarrow> string \<Rightarrow> gradients"
  apply_gradients :: "gradients \<Rightarrow> 'w \<Rightarrow> 'w"

text \<open>What the body of the \<open>with tf.GradientTape()\<close> block computes.\<close>

record 't forward =
  fw_inputs :: "'t list"
  fw_loss_args :: "'t list"
  fw_aux :: "real list"
  fw_loss :: real
  fw_w_decay :: real
  fw_total_loss :: real

definition loss_and_regularization :: "('w, 't) learner \<Rightarrow> 'w \<Rightarrow> 't list \<Rightarrow> 't list \<Rightarrow> 't forward" where
  "loss_and_regularization L w inputs loss_args =
     (let loss = loss_fun L loss_args;
          aux = model_losses L w inputs;
          w_decay = (if aux \<noteq> [] then sum_list aux else 0);
          total_loss = loss + w_decay
      in \<lparr>fw_inputs = inputs, fw_loss_args = loss_args, fw_aux = aux, fw_loss = loss,
          fw_w_decay = w_decay, fw_total_loss = total_loss\<rparr>)"

text \<open>
  The tuples \<open>inputs\<close> and \<open>loss_args\<close> of \<open>train_online\<close> (lines 59--62 and 68--71), where
  a batch is a dict, and of \<open>train_offline\<close> (lines 132--135 and 141--144), where it is a tuple.
\<close>

definition online_inputs :: "string \<Rightarrow> (string \<rightharpoonup> 't) \<Rightarrow> error + 't list" where
  "online_inputs method batch =
     (if method = ''flow'' then getitems batch [''theta'', ''x''] else getitems batch [''x''])"

definition online_loss_args :: "string \<Rightarrow> (string \<rightharpoonup> 't) \<Rightarrow> (string \<rightharpoonup> 't) \<Rightarrow> error + 't list" where
  "online_loss_args method batch outputs =
     (if method = ''flow'' then getitems outputs [''z'', ''log_det_J'']
      else try_bind (getitem batch ''m'')
             (\<lambda>m. try_bind (getitems outputs [''alpha'', ''alpha0'', ''m_probs''])
                     (\<lambda>os. Inr (m # os))))"

definition offline_inputs :: "string \<Rightarrow> 't list \<Rightarrow> error + 't list" where
  "offline_inputs method batch =
     (if method = ''flow''
      then try_bind (index batch 0) (\<lambda>b0. try_bind (index batch 1) (\<lambda>b1. Inr [b0, b1]))
      else try_bind (index batch 0) (\<lambda>b0. Inr [b0]))"

definition offline_loss_args :: "string \<Rightarrow> 't list \<Rightarrow> (string \<rightharpoonup> 't) \<Rightarrow> error + 't list" where
  "offline_loss_args method batch outputs =
     (if method = ''flow'' then getitems outputs [''z'', ''log_det_J'']
      else try_bind (index batch 1)
             (\<lambda>m. try_bind (getitems outputs [''alpha'', ''alpha0'', ''m_probs''])
                     (\<lambda>os. Inr (m # os))))"

definition forward_online :: "('w, 't) learner \<Rightarrow> string \<Rightarrow> 'w \<Rightarrow> (string \<rightharpoonup> 't) \<Rightarrow> error + 't forward" where
  "forward_online L method w batch =
     try_bind (online_inputs method batch)
       (\<lambda>inputs.
          let outputs = model_call L w inputs in
          try_bind (online_loss_args method batch outputs)
            (\<lambda>loss_args. Inr (loss_and_regularization L w inputs loss_args)))"

definition forward_offline :: "('w, 't) learner \<Rightarrow> string \<Rightarrow> 'w \<Rightarrow> 't list \<Rightarrow> error + 't forward" where
  "forward_offline L method w batch =
     try_bind (offline_inputs method batch)
       (\<lambda>inputs.
          let outputs = model_call L w inputs in
          try_bind (offline_loss_args method batch outputs)
            (\<lambda>loss_args. Inr (loss_and_regularization L w inputs loss_args)))"

text \<open>
  One entry per iteration of what the loop handed to the tape and to the optimizer:
  the weights and the batch of the iteration, the values of the forward pass, the
  computation whose gradient was taken, the gradients the tape returned and the gradients
  passed to \<open>apply_gradients\<close>.
\<close>

record ('w, 'b, 't) tape_step =
  ts_weights :: 'w
  ts_batch :: 'b
  ts_forward :: "'t forward"
  ts_objective :: "'w \<Rightarrow> error + real"
  ts_gradients :: gradients
  ts_applied :: gradients

text \<open>The "one step backprop" of both loops (lines 78--81 and 152--155).\<close>

definition one_step_backprop ::
  "('w, 't) learner \<Rightarrow> real option \<Rightarrow> string \<Rightarrow> ('w \<Rightarrow> error + 't forward) \<Rightarrow> 'b \<Rightarrow> 't forward \<Rightarrow> 'w
     \<Rightarrow> 'w \<times> ('w, 'b, 't) tape_step" where
  "one_step_backprop L clip_value clip_method fwd batch r w =
     (let objective = (\<lambda>w'. try_bind (fwd w') (\<lambda>r'. Inr (fw_total_loss r')));
          gradients = tape_gradient L objective w;
          gradients' = (case clip_value of
                          None \<Rightarrow> gradients
                        | Some c \<Rightarrow> clip_gradients L gradients c clip_method)
      in (apply_gradients L gradients' w,
          \<lparr>ts_weights = w, ts_batch = batch, ts_forward = r, ts_objective = objective,
           ts_gradients = gradients, ts_applied = gradients'\<rparr>))"

text \<open>
  The progress reporter: the arguments of every \<open>set_postfix_str\<close> call in order (the values
  that are formatted into the string) and the counter that \<open>update(1)\<close> advances.
\<close>

datatype report =
    Online_report int real "real option" real
  | Offline_report nat real real

record progress =
  postfix :: "report list"
  ticks :: nat

definition report_progress :: "progress option \<Rightarrow> report \<Rightarrow> progress option" where
  "report_progress p_bar r =
     (case p_bar of
        None \<Rightarrow> None
      | Some p \<Rightarrow> Some (p\<lparr>postfix := postfix p @ [r], ticks := ticks p + 1\<rparr>))"

record ('w, 'g, 'b, 't) training =
  weights :: 'w
  source :: 'g
  losses :: "string \<rightharpoonup> real list"
  p_bar :: "progress option"
  tape_steps :: "('w, 'b, 't) tape_step list"

definition store_losses :: "(string \<rightharpoonup> real list) \<Rightarrow> 't forward \<Rightarrow> error + (string \<rightharpoonup> real list)" where
  "store_losses ls r =
     try_bind (append_item ls ''regularization'' (fw_w_decay r))
       (\<lambda>ls'. append_item ls' ''loss'' (fw_loss r))"

definition running_loss :: "(string \<rightharpoonup> real list) \<Rightarrow> real \<Rightarrow> int \<Rightarrow> int \<Rightarrow> error + real option" where
  "running_loss ls loss it n_smooth =
     (if it < n_smooth then Inr (Some loss)
      else try_bind (getitem ls ''loss'') (\<lambda>hist. Inr (np_mean (slice_from (- n_smooth) hist))))"

definition online_iteration ::
  "('w, 't) learner \<Rightarrow> (int \<Rightarrow> 'g \<Rightarrow> (string \<rightharpoonup> 't) \<times> 'g) \<Rightarrow> int \<Rightarrow> real option \<Rightarrow> string \<Rightarrow> int
     \<Rightarrow> string \<Rightarrow> int \<Rightarrow> ('w, 'g, string \<rightharpoonup> 't, 't) training
     \<Rightarrow> error + ('w, 'g, string \<rightharpoonup> 't, 't) training" where
  "online_iteration L data_gen batch_size clip_value clip_method n_smooth method it s =
     (let (batch, g') = data_gen batch_size (source s) in
      try_bind (forward_online L method (weights s) batch)
        (\<lambda>r. let (w', step) = one_step_backprop L clip_value clip_method
                                (\<lambda>w. forward_online L method w batch) batch r (weights s) in
             try_bind (store_losses (losses s) r)
               (\<lambda>ls. try_bind (running_loss ls (fw_loss r) it n_smooth)
                  (\<lambda>running.
                     Inr \<lparr>weights = w', source = g', losses = ls,
                          p_bar = report_progress (p_bar s)
                                    (Online_report it (fw_loss r) running (fw_w_decay r)),
                          tape_steps = tape_steps s @ [step]\<rparr>))))"

fun online_loop ::
  "('w, 't) learner \<Rightarrow> (int \<Rightarrow> 'g \<Rightarrow> (string \<rightharpoonup> 't) \<times> 'g) \<Rightarrow> int \<Rightarrow> real option \<Rightarrow> string \<Rightarrow> int
     \<Rightarrow> string \<Rightarrow> int list \<Rightarrow> ('w, 'g, string \<rightharpoonup> 't, 't) training
     \<Rightarrow> error + ('w, 'g, string \<rightharpoonup> 't, 't) training" where
  "online_loop L data_gen batch_size clip_value clip_method n_smooth method [] s = Inr s"
| "online_loop L data_gen batch_size clip_value clip_method n_smooth method (it # its) s =
     try_bind (online_iteration L data_gen batch_size clip_value clip_method n_smooth method it s)
       (online_loop L data_gen batch_size clip_value clip_method n_smooth method its)"

definition initial_losses :: "string \<rightharpoonup> real list" where
  "initial_losses = [''loss'' \<mapsto> [], ''regularization'' \<mapsto> []]"

text \<open>
  \<open>train_online_run\<close> is the whole call with everything it touched (the weights, the data
  source, the reporter, the tape); \<open>train_online\<close> is the value the caller gets back.
\<close>

definition train_online_run ::
  "('w, 't) learner \<Rightarrow> 'w \<Rightarrow> (int \<Rightarrow> 'g \<Rightarrow> (string \<rightharpoonup> 't) \<times> 'g) \<Rightarrow> 'g \<Rightarrow> int \<Rightarrow> int
     \<Rightarrow> progress option \<Rightarrow> real option \<Rightarrow> string \<Rightarrow> int \<Rightarrow> string
     \<Rightarrow> error + ('w, 'g, string \<rightharpoonup> 't, 't) training" where
  "train_online_run L w data_gen g iterations batch_size pb clip_value clip_method n_smooth method =
     online_loop L data_gen batch_size clip_value clip_method n_smooth method [1..iterations]
       \<lparr>weights = w, source = g, losses = initial_losses, p_bar = pb, tape_steps = []\<rparr>"

definition train_online ::
  "('w, 't) learner \<Rightarrow> 'w \<Rightarrow> (int \<Rightarrow> 'g \<Rightarrow> (string \<rightharpoonup> 't) \<times> 'g) \<Rightarrow> 'g \<Rightarrow> int \<Rightarrow> int
     \<Rightarrow> progress option \<Rightarrow> real option \<Rightarrow> string \<Rightarrow> int \<Rightarrow> string
     \<Rightarrow> error + (string \<rightharpoonup> real list)" where
  "train_online L w data_gen g iterations batch_size pb clip_value clip_method n_smooth method =
     try_bind (train_online_run L w data_gen g iterations batch_size pb clip_value clip_method
                 n_smooth method)
       (\<lambda>s. Inr (losses s))"

definition offline_iteration ::
  "('w, 't) learner \<Rightarrow> real option \<Rightarrow> string \<Rightarrow> string \<Rightarrow> nat \<Rightarrow> 't list
     \<Rightarrow> ('w, unit, 't list, 't) training \<Rightarrow> error + ('w, unit, 't list, 't) training" where
  "offline_iteration L clip_value clip_method method bi batch s =
     try_bind (forward_offline L method (weights s) batch)
       (\<lambda>r. let (w', step) = one_step_backprop L clip_value clip_method
                               (\<lambda>w. forward_offline L method w batch) batch r (weights s) in
            try_bind (store_losses (losses s) r)
              (\<lambda>ls. Inr \<lparr>weights = w', source = (), losses = ls,
                         p_bar = report_progress (p_bar s)
                                   (Offline_report bi (fw_loss r) (fw_w_decay r)),
                         tape_steps = tape_steps s @ [step]\<rparr>))"

fun offline_loop ::
  "('w, 't) learner \<Rightarrow> real option \<Rightarrow> string \<Rightarrow> string \<Rightarrow> (nat \<times> 't list) list
     \<Rightarrow> ('w, unit, 't list, 't) training \<Rightarrow> error + ('w, unit, 't list, 't) training" where
  "offline_loop L clip_value clip_method method [] s = Inr s"
| "offline_loop L clip_value clip_method method ((bi, batch) # rest) s =
     try_bind (offline_iteration L clip_value clip_method method bi batch s)
       (offline_loop L clip_value clip_method method rest)"

definition train_offline_run ::
  "('w, 't) learner \<Rightarrow> 'w \<Rightarrow> 't list list \<Rightarrow> progress option \<Rightarrow> real option \<Rightarrow> string \<Rightarrow> string
     \<Rightarrow> error + ('w, unit, 't list, 't) training" where
  "train_offline_run L w dataset pb clip_value clip_method method =
     offline_loop L clip_value clip_method method (enumerate 0 dataset)
       \<lparr>weights = w, source = (), losses = initial_losses, p_bar = pb, tape_steps = []\<rparr>"

definition train_offline ::
  "('w, 't) learner \<Rightarrow> 'w \<Rightarrow> 't list list \<Rightarrow> progress option \<Rightarrow> real option \<Rightarrow> string \<Rightarrow> string
     \<Rightarrow> error + (string \<rightharpoonup> real list)" where
  "train_offline L w dataset pb clip_value clip_method method =
     try_bind (train_offline_run L w dataset pb clip_value clip_method method)
       (\<lambda>s. Inr (losses s))"

subsection \<open>Gradient clipping\<close>

text \<open>
  Modelled from the spec: \<open>clip_gradients\<close> of \<open>deep_bayes/utils.py\<close> (not among the sources)
  for the method \<open>'global_norm'\<close>. The spec's words: global-norm clipping rescales a gradient
  vector so that its overall Euclidean norm does not exceed a threshold; a vector whose norm
  is below the threshold is returned unchanged. The gradient vector is all entries of all
  the tensors of the list; the arithmetic is that of the reals.
\<close>

definition global_norm :: "gradients \<Rightarrow> real" where
  "global_norm gs = sqrt (sum_list (map (\<lambda>x. x\<^sup>2) (concat gs)))"

text \<open>
  Modelled from the spec: the clipping itself, for the same method. A vector whose norm
  exceeds the threshold is rescaled by threshold / norm; any other vector is returned as it is.
\<close>

definition clip_by_global_norm :: "gradients \<Rightarrow> real \<Rightarrow> gradients" where
  "clip_by_global_norm gs clip_value =
     (if clip_value < global_norm gs
      then map (map (\<lambda>x. x * (clip_value / global_norm gs))) gs
      else gs)"


subsection \<open>What a run leaves behind\<close>

text \<open>
  The facts the proofs carry through the loops: what one forward pass computed, what one
  iteration handed to the tape and the optimizer, and how a run extends the history.
\<close>

definition forward_ok :: "('w, 't) learner \<Rightarrow> 'w \<Rightarrow> 't forward \<Rightarrow> bool" where
  "forward_ok L w r \<longleftrightarrow>
     fw_loss r = loss_fun L (fw_loss_args r) \<and>
     fw_aux r = model_losses L w (fw_inputs r) \<and>
     fw_w_decay r = sum_list (fw_aux r) \<and>
     fw_total_loss r = fw_loss r + fw_w_decay r"

definition step_ok ::
  "('w, 't) learner \<Rightarrow> real option \<Rightarrow> string \<Rightarrow> ('w \<Rightarrow> 'b \<Rightarrow> error + 't forward)
     \<Rightarrow> ('w, 'b, 't) tape_step \<Rightarrow> bool" where
  "step_ok L clip_value clip_method fwd e \<longleftrightarrow>
     fwd (ts_weights e) (ts_batch e) = Inr (ts_forward e) \<and>
     ts_objective e = (\<lambda>w'. try_bind (fwd w' (ts_batch e)) (\<lambda>r'. Inr (fw_total_loss r'))) \<and>
     ts_gradients e = tape_gradient L (ts_objective e) (ts_weights e) \<and>
     ts_applied e = (case clip_value of
                       None \<Rightarrow> ts_gradients e
                     | Some c \<Rightarrow> clip_gradients L (ts_gradients e) c clip_method)"

definition ran ::
  "('w, 't) learner \<Rightarrow> real option \<Rightarrow> string \<Rightarrow> ('w \<Rightarrow> 'b \<Rightarrow> error + 't forward)
     \<Rightarrow> ('w, 'g, 'b, 't) training \<Rightarrow> ('w, 'b, 't) tape_step list \<Rightarrow> ('w, 'g, 'b, 't) training \<Rightarrow> bool" where
  "ran L cv cm fwd s new s' \<longleftrightarrow>
     tape_steps s' = tape_steps s @ new \<and>
     (\<forall>e \<in> set new. step_ok L cv cm fwd e) \<and>
     weights s' = foldl (\<lambda>w e. apply_gradients L (ts_applied e) w) (weights s) new \<and>
     dom (losses s') = dom (losses s) \<and>
     (\<forall>hs. losses s ''loss'' = Some hs \<longrightarrow>
        losses s' ''loss'' = Some (hs @ map (\<lambda>e. fw_loss (ts_forward e)) new)) \<and>
     (\<forall>rs. losses s ''regularization'' = Some rs \<longrightarrow>
        losses s' ''regularization'' = Some (rs @ map (\<lambda>e. fw_w_decay (ts_forward e)) new))"


subsection \<open>Reading a run\<close>

text \<open>
  The arithmetic mean of the last \<open>k\<close> entries of a list, and what a run reported to the
  progress reporter and recorded under a key of the history (nothing when it raised).
\<close>

definition mean_of_last :: "nat \<Rightarrow> real list \<Rightarrow> real" where
  "mean_of_last k xs = sum_list (drop (length xs - k) xs) / real k"

definition reported :: "error + ('w, 'g, 'b, 't) training \<Rightarrow> report list" where
  "reported run =
     (case run of Inl e \<Rightarrow> [] | Inr s \<Rightarrow> (case p_bar s of None \<Rightarrow> [] | Some p \<Rightarrow> postfix p))"

definition recorded :: "error + ('w, 'g, 'b, 't) training \<Rightarrow> string \<Rightarrow> real list" where
  "recorded run k =
     (case run of Inl e \<Rightarrow> [] | Inr s \<Rightarrow> (case losses s k of None \<Rightarrow> [] | Some xs \<Rightarrow> xs))"


subsection \<open>A small learner\<close>

text \<open>
  Concrete collaborators on which the loops can be run: a model with one weight, two
  declared losses of 1/4 each, a tape that always returns the gradients \<open>[[3], [4]]\<close>, a data
  source that counts, and a dataset of three batches.
\<close>

definition toy_learner :: "(real, real) learner" where
  "toy_learner =
     \<lparr>model_call = (\<lambda>w inputs. [''z'' \<mapsto> sum_list inputs, ''log_det_J'' \<mapsto> w]),
      model_losses = (\<lambda>w inputs. [1 / 4, 1 / 4]),
      loss_fun = sum_list,
      tape_gradient = (\<lambda>objective w. [[3], [4]]),
      clip_gradients = (\<lambda>gs c m. map (map (\<lambda>x. x * c / 10)) gs),
      apply_gradients = (\<lambda>gs w. w + sum_list (concat gs))\<rparr>"

definition toy_data_gen :: "int \<Rightarrow> nat \<Rightarrow> (string \<rightharpoonup> real) \<times> nat" where
  "toy_data_gen batch_size g = ([''theta'' \<mapsto> 0, ''x'' \<mapsto> real g + 1], Suc g)"

definition toy_dataset :: "real list list" where
  "toy_dataset = [[0, 1], [0, 2], [0, 3]]"

definition no_reports :: progress where
  "no_reports = \<lparr>postfix = [], ticks = 0\<rparr>"


section \<open>bayesflow/diagnostics.py\<close>

subsection \<open>Arrays\<close>

text \<open>
  A numpy array of two or three dimensions: its shape and its entries, row-major. The shape
  is kept beside the entries because an axis of length 0 leaves no entry to read the other
  lengths from. Entries of the sample arrays are real numbers.
\<close>

record 'a nd2 =
  shape2 :: "nat \<times> nat"
  items2 :: "'a list list"

record 'a nd3 =
  shape3 :: "nat \<times> nat \<times> nat"
  items3 :: "'a list list list"

definition valid2 :: "'a nd2 \<Rightarrow> bool" where
  "valid2 a \<longleftrightarrow>
     length (items2 a) = fst (shape2 a) \<and>
     list_all (\<lambda>r. length r = snd (shape2 a)) (items2 a)"

definition valid3 :: "'a nd3 \<Rightarrow> bool" where
  "valid3 a \<longleftrightarrow>
     length (items3 a) = fst (shape3 a) \<and>
     list_all (\<lambda>b. length b = fst (snd (shape3 a)) \<and>
                    list_all (\<lambda>r. length r = snd (snd (shape3 a))) b) (items3 a)"

text \<open>\<open>a[:, i]\<close> for a non-negative \<open>i\<close>.\<close>

definition column :: "'a nd2 \<Rightarrow> nat \<Rightarrow> error + 'a list" where
  "column a i =
     (if i < snd (shape2 a) then Inr (map (\<lambda>r. r ! i) (items2 a)) else Inl IndexError)"

text \<open>\<open>a[:, np.newaxis, :]\<close>.\<close>

definition newaxis1 :: "'a nd2 \<Rightarrow> 'a nd3" where
  "newaxis1 a =
     \<lparr>shape3 = (fst (shape2 a), 1, snd (shape2 a)), items3 = map (\<lambda>r. [r]) (items2 a)\<rparr>"

text \<open>
  Broadcasting: two axis lengths are compatible when they are equal or one of them is 1; an
  axis of length 1 is read at index 0 for every index of the result.
\<close>

definition broadcast_dim :: "nat \<Rightarrow> nat \<Rightarrow> error + nat" where
  "broadcast_dim m n =
     (if m = n then Inr m else if m = 1 then Inr n else if n = 1 then Inr m else Inl ValueError)"

definition item3 :: "'a nd3 \<Rightarrow> nat \<Rightarrow> nat \<Rightarrow> nat \<Rightarrow> 'a" where
  "item3 a i k j =
     (case shape3 a of (n, m, p) \<Rightarrow>
        items3 a ! (if n = 1 then 0 else i) ! (if m = 1 then 0 else k) ! (if p = 1 then 0 else j))"

definition np_less :: "real nd3 \<Rightarrow> real nd3 \<Rightarrow> error + bool nd3" where
  "np_less a b =
     (case (shape3 a, shape3 b) of ((n, m, p), (n', m', p')) \<Rightarrow>
        try_bind (broadcast_dim n n') (\<lambda>d0.
        try_bind (broadcast_dim m m') (\<lambda>d1.
        try_bind (broadcast_dim p p') (\<lambda>d2.
          Inr \<lparr>shape3 = (d0, d1, d2),
               items3 = map (\<lambda>i. map (\<lambda>k. map (\<lambda>j. item3 a i k j < item3 b i k j) [0..<d2])
                                     [0..<d1]) [0..<d0]\<rparr>))))"

text \<open>\<open>np.sum(c, axis=1)\<close> of a Boolean array: \<open>True\<close> counts 1.\<close>

definition sum_axis1 :: "bool nd3 \<Rightarrow> int nd2" where
  "sum_axis1 c =
     (case shape3 c of (n, m, p) \<Rightarrow>
        \<lparr>shape2 = (n, p),
         items2 = map (\<lambda>i. map (\<lambda>j. sum_list (map (\<lambda>k. if items3 c ! i ! k ! j then 1 else 0)
                                                  [0..<m])) [0..<p]) [0..<n]\<rparr>)"

text \<open>
  A reduction along axis 1, \<open>agg(a, axis=1)\<close> for a numpy reducer such as \<open>np.mean\<close>, \<open>np.std\<close>
  or \<open>np.median\<close>: the function \<open>f\<close> of one fibre \<open>a[i, :, j]\<close> at every \<open>i\<close>, \<open>j\<close>.
\<close>

definition along_axis1 :: "('a list \<Rightarrow> 'b) \<Rightarrow> 'a nd3 \<Rightarrow> 'b nd2" where
  "along_axis1 f a =
     (case shape3 a of (n, m, p) \<Rightarrow>
        \<lparr>shape2 = (n, p),
         items2 = map (\<lambda>i. map (\<lambda>j. f (map (\<lambda>k. items3 a ! i ! k ! j) [0..<m])) [0..<p])
                    [0..<n]\<rparr>)"

text \<open>
  The arithmetic mean of a fibre. (On an empty fibre numpy returns \<open>nan\<close>, which a real
  number cannot show; nothing below takes the mean of an empty fibre.)
\<close>

definition fibre_mean :: "real list \<Rightarrow> real" where
  "fibre_mean xs = sum_list xs / real (length xs)"


subsection \<open>Subplot grids\<close>

text \<open>
  \<open>n_row = int(np.ceil(n / 6))\<close> and \<open>n_col = int(np.ceil(n / n_row))\<close>, on natural numbers;
  the second division is by zero when \<open>n = 0\<close>.
\<close>

definition subplot_grid :: "nat \<Rightarrow> error + nat \<times> nat" where
  "subplot_grid n =
     (let n_row = (n + 5) div 6 in
      if n_row = 0 then Inl ZeroDivisionError
      else Inr (n_row, (n + n_row - 1) div n_row))"

text \<open>
  What \<open>plt.subplots(n_row, n_col)\<close> returns beside the figure (with the default
  \<open>squeeze=True\<close>): one Axes object for a 1-by-1 grid, a one-dimensional array of Axes when
  there is one row or one column, a two-dimensional array otherwise. \<open>Flat\<close> is the
  \<open>.flat\<close> iterator of an array.
\<close>

datatype axes = Single | Array1 nat | Array2 nat nat | Flat nat

definition subplots :: "nat \<Rightarrow> nat \<Rightarrow> error + axes" where
  "subplots n_row n_col =
     (if n_row = 0 \<or> n_col = 0 then Inl ValueError
      else if n_row = 1 \<and> n_col = 1 then Inr Single
      else if n_row = 1 \<or> n_col = 1 then Inr (Array1 (n_row * n_col))
      else Inr (Array2 n_row n_col))"

text \<open>\<open>axarr.flat\<close>: an Axes object has no such attribute.\<close>

fun flat :: "axes \<Rightarrow> error + axes" where
  "flat Single = Inl AttributeError"
| "flat (Array1 n) = Inr (Flat n)"
| "flat (Array2 r c) = Inr (Flat (r * c))"
| "flat (Flat n) = Inl AttributeError"

text \<open>The number of Axes an iteration over \<open>axarr.flat\<close> visits.\<close>

fun cells :: "axes \<Rightarrow> nat" where
  "cells Single = 1"
| "cells (Array1 n) = n"
| "cells (Array2 r c) = r * c"
| "cells (Flat n) = n"

text \<open>
  \<open>ax[j]\<close> followed by a call of an Axes method: an Axes object is not subscriptable, and
  an entry of a two-dimensional array is a row of Axes, which has no Axes methods.
\<close>

fun axes_item :: "axes \<Rightarrow> nat \<Rightarrow> error + unit" where
  "axes_item Single j = Inl TypeError"
| "axes_item (Array1 n) j = (if j < n then Inr () else Inl IndexError)"
| "axes_item (Flat n) j = (if j < n then Inr () else Inl IndexError)"
| "axes_item (Array2 r c) j = (if j < r then Inl AttributeError else Inl IndexError)"

text \<open>\<open>ax.set_title(...)\<close> on what the loops call \<open>ax\<close>: only an Axes object has the method.\<close>

fun set_title :: "axes \<Rightarrow> error + unit" where
  "set_title Single = Inr ()"
| "set_title ax = Inl AttributeError"

text \<open>The decimal numeral of a natural number, and the default names \<open>f'p_{i}'\<close>.\<close>

fun str_nat :: "nat \<Rightarrow> string" where
  "str_nat n =
     (if n < 10 then [''0123456789'' ! n]
      else str_nat (n div 10) @ [''0123456789'' ! (n mod 10)])"

definition default_names :: "string \<Rightarrow> nat \<Rightarrow> string list" where
  "default_names prefix n = map (\<lambda>i. prefix @ str_nat i) [1..<n + 1]"


subsection \<open>plot\_recovery\<close>

text \<open>
  The entries of the arrays that \<open>plot_recovery\<close> handles are values of an arbitrary type
  \<open>'a\<close>: floating-point numbers, \<open>nan\<close> and the infinities among them. What numpy, the
  Python built-ins, matplotlib, seaborn and scikit-learn do with them is outside the
  repository and is a parameter. Every call that draws or measures may raise:

  \<^item> \<open>draw_points\<close>: \<open>ax.errorbar(x, y, yerr=..)\<close> of line 86, or \<open>ax.scatter(x, y)\<close> of line 88
    when there are no error bars;
  \<^item> \<open>array_min\<close>, \<open>array_max\<close>: the value of \<open>a.min()\<close>, \<open>a.max()\<close> on an array that is not
    empty; \<open>builtin_min\<close>, \<open>builtin_max\<close>: Python's \<open>min\<close> and \<open>max\<close> of two numbers;
  \<^item> \<open>pad_limits\<close>: the pair \<open>lower - eps\<close>, \<open>upper + eps\<close> with \<open>eps = (upper - lower) * 0.1\<close>;
  \<^item> \<open>set_limits\<close>: lines 94--101, \<open>set_xlim\<close>, \<open>set_ylim\<close>, the dashed diagonal and the
    axis labels;
  \<^item> \<open>r2_score\<close>: lines 103--108, the score and the text that shows it; \<open>corrcoef\<close>: lines
    110--115, likewise;
  \<^item> \<open>title_and_prettify\<close>: \<open>ax.set_title\<close> of line 116 and lines 119--120.
\<close>

record 'a plot_library =
  draw_points :: "'a list \<Rightarrow> 'a list \<Rightarrow> 'a list option \<Rightarrow> error + unit"
  array_min :: "'a list \<Rightarrow> 'a"
  array_max :: "'a list \<Rightarrow> 'a"
  builtin_min :: "'a \<Rightarrow> 'a \<Rightarrow> 'a"
  builtin_max :: "'a \<Rightarrow> 'a \<Rightarrow> 'a"
  pad_limits :: "'a \<Rightarrow> 'a \<Rightarrow> 'a \<times> 'a"
  set_limits :: "'a \<times> 'a \<Rightarrow> error + unit"
  r2_score :: "'a list \<Rightarrow> 'a list \<Rightarrow> error + 'a"
  corrcoef :: "'a list \<Rightarrow> 'a list \<Rightarrow> error + 'a"
  title_and_prettify :: "string \<Rightarrow> error + unit"

text \<open>
  A figure is the list of its panels, in the order the loop drew them, each with what was
  handed to the library.
\<close>

record 'a recovery_panel =
  truth :: "'a list"
  estimate :: "'a list"
  yerr :: "'a list option"
  limits :: "'a \<times> 'a"
  r2 :: "'a option"
  corr :: "'a option"
  title :: string

text \<open>\<open>xs.min()\<close> and \<open>xs.max()\<close>: a zero-size array has no minimum and no maximum.\<close>

definition amin :: "'a plot_library \<Rightarrow> 'a list \<Rightarrow> error + 'a" where
  "amin lib xs = (if xs = [] then Inl ValueError else Inr (array_min lib xs))"

definition amax :: "'a plot_library \<Rightarrow> 'a list \<Rightarrow> error + 'a" where
  "amax lib xs = (if xs = [] then Inl ValueError else Inr (array_max lib xs))"

text \<open>Line 65: \<open>est = point_agg(post_samples, axis=1)\<close>.\<close>

definition point_estimates :: "('p \<Rightarrow> 'r) \<Rightarrow> 'p \<Rightarrow> 'r" where
  "point_estimates point_agg post_samples = point_agg post_samples"

text \<open>
  Line 66: \<open>u = uncertainty_agg(post_samples, axis=1)\<close>; \<open>None\<close> is not callable. An
  aggregator is a callable of the caller's and may raise.
\<close>

definition uncertainties ::
  "('a nd3 \<Rightarrow> error + 'a nd2) option \<Rightarrow> 'a nd3 \<Rightarrow> error + 'a nd2" where
  "uncertainties uncertainty_agg post_samples =
     (case uncertainty_agg of None \<Rightarrow> Inl TypeError | Some agg \<Rightarrow> agg post_samples)"

text \<open>Lines 91--95: the common limits of both axes.\<close>

definition cell_limits :: "'a plot_library \<Rightarrow> 'a \<Rightarrow> 'a \<Rightarrow> 'a \<Rightarrow> 'a \<Rightarrow> 'a \<times> 'a" where
  "cell_limits lib xmin ymin xmax ymax =
     (let lower = builtin_min lib xmin ymin;
          upper = builtin_max lib xmax ymax
      in pad_limits lib lower upper)"

text \<open>The body of the loop over \<open>enumerate(axarr.flat)\<close>, lines 85--120.\<close>

definition recovery_cell ::
  "'a plot_library \<Rightarrow> 'a nd2 \<Rightarrow> 'a nd2 \<Rightarrow> 'a nd2 \<Rightarrow> bool \<Rightarrow> string list \<Rightarrow> bool \<Rightarrow> bool \<Rightarrow> nat
     \<Rightarrow> error + 'a recovery_panel" where
  "recovery_cell lib prior_samples est u with_uncertainty param_names add_corr add_r2 i =
     try_bind (column prior_samples i) (\<lambda>xs.
     try_bind (column est i) (\<lambda>ys.
     try_bind (if with_uncertainty then try_bind (column u i) (\<lambda>us. Inr (Some us)) else Inr None)
       (\<lambda>bars.
     try_bind (draw_points lib xs ys bars) (\<lambda>_.
     try_bind (amin lib xs) (\<lambda>xmin.
     try_bind (amin lib ys) (\<lambda>ymin.
     try_bind (amax lib xs) (\<lambda>xmax.
     try_bind (amax lib ys) (\<lambda>ymax.
     try_bind (set_limits lib (cell_limits lib xmin ymin xmax ymax)) (\<lambda>_.
     try_bind (if add_r2 then try_bind (r2_score lib xs ys) (\<lambda>v. Inr (Some v)) else Inr None)
       (\<lambda>score.
     try_bind (if add_corr then try_bind (corrcoef lib xs ys) (\<lambda>v. Inr (Some v)) else Inr None)
       (\<lambda>r.
     try_bind (index param_names i) (\<lambda>name.
     try_bind (title_and_prettify lib name) (\<lambda>_.
       Inr \<lparr>truth = xs, estimate = ys, yerr = bars,
            limits = cell_limits lib xmin ymin xmax ymax,
            r2 = score, corr = r, title = name\<rparr>)))))))))))))"

fun recovery_loop ::
  "(nat \<Rightarrow> error + 'a recovery_panel) \<Rightarrow> nat list \<Rightarrow> 'a recovery_panel list
     \<Rightarrow> error + 'a recovery_panel list" where
  "recovery_loop cell [] f = Inr f"
| "recovery_loop cell (i # rest) f =
     try_bind (cell i) (\<lambda>panel. recovery_loop cell rest (f @ [panel]))"

definition plot_recovery ::
  "'a plot_library \<Rightarrow> 'a nd3 \<Rightarrow> 'a nd2 \<Rightarrow> ('a nd3 \<Rightarrow> error + 'a nd2)
     \<Rightarrow> ('a nd3 \<Rightarrow> error + 'a nd2) option \<Rightarrow> string list option \<Rightarrow> bool \<Rightarrow> bool
     \<Rightarrow> error + 'a recovery_panel list" where
  "plot_recovery lib post_samples prior_samples point_agg uncertainty_agg
       param_names add_corr add_r2 =
     try_bind (point_estimates point_agg post_samples) (\<lambda>est.
     try_bind (uncertainties uncertainty_agg post_samples) (\<lambda>u.
       let n_params = snd (shape2 prior_samples);
           names = (case param_names of None \<Rightarrow> default_names ''p_'' n_params | Some ns \<Rightarrow> ns)
       in try_bind (subplot_grid n_params) (\<lambda>(n_row, n_col).
          try_bind (subplots n_row n_col) (\<lambda>axarr.
          try_bind (flat axarr) (\<lambda>it.
            recovery_loop
              (recovery_cell lib prior_samples est u (uncertainty_agg \<noteq> None)
                 names add_corr add_r2)
              [0..<cells it] [])))))"

text \<open>
  The calls to the library in one cell return: the premise under which a cell can only
  fail in the code of \<open>plot_recovery\<close> itself.
\<close>

definition library_returns ::
  "'a plot_library \<Rightarrow> bool \<Rightarrow> bool \<Rightarrow> 'a list \<Rightarrow> 'a list \<Rightarrow> 'a list \<Rightarrow> bool" where
  "library_returns lib add_corr add_r2 xs ys bars \<longleftrightarrow>
     draw_points lib xs ys (Some bars) = Inr () \<and>
     set_limits lib (cell_limits lib (array_min lib xs) (array_min lib ys)
                       (array_max lib xs) (array_max lib ys)) = Inr () \<and>
     (add_r2 \<longrightarrow> (\<exists>v. r2_score lib xs ys = Inr v)) \<and>
     (add_corr \<longrightarrow> (\<exists>v. corrcoef lib xs ys = Inr v)) \<and>
     (\<forall>name. title_and_prettify lib name = Inr ())"


subsection \<open>plot\_sbc\<close>

record sbc_panel =
  band :: "real \<times> real"
  midline :: real
  ranks_shown :: "int list"
  bins :: int
  sbc_title :: string

text \<open>Line 176: the rank statistics, by broadcasting.\<close>

definition sbc_ranks :: "real nd3 \<Rightarrow> real nd2 \<Rightarrow> error + int nd2" where
  "sbc_ranks post_samples prior_samples =
     try_bind (np_less post_samples (newaxis1 prior_samples)) (\<lambda>below. Inr (sum_axis1 below))"

text \<open>
  Lines 179--180: the endpoints of the band. \<open>binom.interval\<close> of scipy is a parameter: it
  takes the confidence level, the number of trials and the success probability.
\<close>

definition sbc_endpoints ::
  "(real \<Rightarrow> nat \<Rightarrow> real \<Rightarrow> real \<times> real) \<Rightarrow> real \<Rightarrow> real nd2 \<Rightarrow> int \<Rightarrow> error + real \<times> real" where
  "sbc_endpoints binom_interval binomial_interval prior_samples num_bins =
     (let N = fst (shape2 prior_samples) in
      if num_bins + 1 = 0 then Inl ZeroDivisionError
      else Inr (binom_interval binomial_interval N (1 / real_of_int (num_bins + 1))))"

definition sbc_cell ::
  "axes \<Rightarrow> int nd2 \<Rightarrow> real \<times> real \<Rightarrow> int \<Rightarrow> string list \<Rightarrow> nat \<Rightarrow> error + sbc_panel" where
  "sbc_cell ax ranks endpoints num_bins param_names j =
     try_bind (axes_item ax j) (\<lambda>_.
     try_bind (column ranks j) (\<lambda>rs.
     try_bind (index param_names j) (\<lambda>name.
       Inr \<lparr>band = endpoints, midline = (fst endpoints + snd endpoints) / 2,
            ranks_shown = rs, bins = num_bins, sbc_title = name\<rparr>)))"

fun sbc_loop :: "(nat \<Rightarrow> error + sbc_panel) \<Rightarrow> nat list \<Rightarrow> sbc_panel list \<Rightarrow> error + sbc_panel list" where
  "sbc_loop cell [] f = Inr f"
| "sbc_loop cell (j # rest) f = try_bind (cell j) (\<lambda>panel. sbc_loop cell rest (f @ [panel]))"

definition plot_sbc ::
  "(real \<Rightarrow> nat \<Rightarrow> real \<Rightarrow> real \<times> real) \<Rightarrow> real nd3 \<Rightarrow> real nd2 \<Rightarrow> string list option \<Rightarrow> int \<Rightarrow> real
     \<Rightarrow> error + sbc_panel list" where
  "plot_sbc binom_interval post_samples prior_samples param_names num_bins binomial_interval =
     (let n_params = snd (shape2 prior_samples);
          names = (case param_names of None \<Rightarrow> default_names ''p_'' n_params | Some ns \<Rightarrow> ns)
      in try_bind (subplot_grid n_params) (\<lambda>(n_row, n_col).
         try_bind (subplots n_row n_col) (\<lambda>axarr.
         try_bind (sbc_ranks post_samples prior_samples) (\<lambda>ranks.
         try_bind (sbc_endpoints binom_interval binomial_interval prior_samples num_bins)
           (\<lambda>endpoints.
         try_bind (if n_row > 1 then flat axarr else Inr axarr) (\<lambda>ax.
           sbc_loop (sbc_cell ax ranks endpoints num_bins names) [0..<length names] []))))))"


subsection \<open>plot\_calibration\_curves\<close>

text \<open>
  \<open>expected_calibration_error\<close> of \<open>bayesflow.computational_utilities\<close> is a parameter: it
  returns the calibration errors and, per model, the pair of sequences that is plotted.
\<close>

record calibration_panel =
  curve :: "real list \<times> real list"
  ece :: real
  cal_title :: string

definition calibration_cell ::
  "axes \<Rightarrow> real list \<Rightarrow> (real list \<times> real list) list \<Rightarrow> string list \<Rightarrow> nat
     \<Rightarrow> error + calibration_panel" where
  "calibration_cell ax cal_errs cal_probs model_names j =
     try_bind (axes_item ax j) (\<lambda>_.
     try_bind (index cal_probs j) (\<lambda>probs.
     try_bind (index cal_errs j) (\<lambda>err.
     try_bind (set_title ax) (\<lambda>_.
     try_bind (index model_names j) (\<lambda>name.
       Inr \<lparr>curve = probs, ece = err, cal_title = name\<rparr>)))))"

fun calibration_loop ::
  "(nat \<Rightarrow> error + calibration_panel) \<Rightarrow> nat list \<Rightarrow> calibration_panel list
     \<Rightarrow> error + calibration_panel list" where
  "calibration_loop cell [] f = Inr f"
| "calibration_loop cell (j # rest) f =
     try_bind (cell j) (\<lambda>panel. calibration_loop cell rest (f @ [panel]))"

definition plot_calibration_curves ::
  "('m \<Rightarrow> real nd2 \<Rightarrow> int \<Rightarrow> real list \<times> (real list \<times> real list) list) \<Rightarrow> 'm \<Rightarrow> real nd2
     \<Rightarrow> string list option \<Rightarrow> int \<Rightarrow> error + calibration_panel list" where
  "plot_calibration_curves expected_calibration_error m_true m_pred model_names n_bins =
     (let n_models = snd (shape2 m_pred);
          names = (case model_names of None \<Rightarrow> default_names ''M_'' n_models | Some ns \<Rightarrow> ns)
      in try_bind (subplot_grid n_models) (\<lambda>(n_row, n_col).
           let (cal_errs, cal_probs) = expected_calibration_error m_true m_pred n_bins in
           try_bind (subplots n_row n_col) (\<lambda>axarr.
           try_bind (if n_row > 1 then flat axarr else Inr axarr) (\<lambda>ax.
             calibration_loop (calibration_cell ax cal_errs cal_probs names)
               [0..<n_models] []))))"


subsection \<open>Sample arrays\<close>

text \<open>Small arrays on which the plotting functions can be run.\<close>

definition toy_post :: "real nd3" where
  "toy_post = \<lparr>shape3 = (2, 3, 2), items3 = [[[1, 5], [2, 6], [3, 7]], [[0, 0], [4, 4], [9, 9]]]\<rparr>"

definition toy_prior :: "real nd2" where
  "toy_prior = \<lparr>shape2 = (2, 2), items2 = [[5 / 2, 8], [4, 0]]\<rparr>"


definition single_draws :: "real nd3" where
  "single_draws = \<lparr>shape3 = (2, 1, 3), items3 = [[[1, 2, 3]], [[4, 5, 6]]]\<rparr>"

definition two_model_predictions :: "real nd2" where
  "two_model_predictions = \<lparr>shape2 = (3, 2), items2 = [[1 / 2, 1 / 2], [1, 0], [1 / 4, 3 / 4]]\<rparr>"

definition toy_calibration :: "unit \<Rightarrow> real nd2 \<Rightarrow> int \<Rightarrow> real list \<times> (real list \<times> real list) list" where
  "toy_calibration m_true m_pred n_bins =
     ([1 / 10, 1 / 5], [([0, 1], [0, 1]), ([0, 1], [1 / 2, 1 / 2])])"


definition seven_post :: "real nd3" where
  "seven_post = \<lparr>shape3 = (1, 1, 7), items3 = [[[1, 2, 3, 4, 5, 6, 7]]]\<rparr>"

definition seven_prior :: "real nd2" where
  "seven_prior = \<lparr>shape2 = (1, 7), items2 = [[1, 2, 3, 4, 5, 6, 8]]\<rparr>"

definition no_post :: "real nd3" where
  "no_post = \<lparr>shape3 = (0, 1, 7), items3 = []\<rparr>"

definition no_prior :: "real nd2" where
  "no_prior = \<lparr>shape2 = (0, 7), items2 = []\<rparr>"

text \<open>
  A library over the reals none of whose calls raises, with a metric that is always 0, and
  aggregators along the draw axis: the mean, and a spread that is always 0.
\<close>

definition quiet_library :: "real plot_library" where
  "quiet_library =
     \<lparr>draw_points = (\<lambda>xs ys bars. Inr ()),
      array_min = (\<lambda>xs. fold min xs (hd xs)),
      array_max = (\<lambda>xs. fold max xs (hd xs)),
      builtin_min = min,
      builtin_max = max,
      pad_limits = (\<lambda>lower upper. (lower - (upper - lower) * (1 / 10),
                                   upper + (upper - lower) * (1 / 10))),
      set_limits = (\<lambda>lim. Inr ()),
      r2_score = (\<lambda>xs ys. Inr 0),
      corrcoef = (\<lambda>xs ys. Inr 0),
      title_and_prettify = (\<lambda>name. Inr ())\<rparr>"

definition mean_agg :: "real nd3 \<Rightarrow> error + real nd2" where
  "mean_agg post_samples = Inr (along_axis1 fibre_mean post_samples)"

definition zero_spread :: "real list \<Rightarrow> real" where
  "zero_spread xs = 0"

definition spread_agg :: "real nd3 \<Rightarrow> error + real nd2" where
  "spread_agg post_samples = Inr (along_axis1 zero_spread post_samples)"

text \<open>
  Floating-point numbers with \<open>nan\<close> (here \<open>None\<close>), and a library over them that behaves as
  the real one does where \<open>nan\<close> matters: \<open>np.mean\<close> and \<open>np.std\<close> of no draw are \<open>nan\<close>, the
  minimum and the maximum of an array that holds \<open>nan\<close> are \<open>nan\<close>, Python's \<open>min\<close> and \<open>max\<close>
  keep their first argument when a comparison with \<open>nan\<close> is false, matplotlib refuses axis
  limits that are \<open>nan\<close>, and \<open>r2_score\<close> refuses input that contains \<open>nan\<close>.
\<close>

definition nan_mean :: "real option list \<Rightarrow> real option" where
  "nan_mean xs = (if xs = [] then None else map_option fibre_mean (those xs))"

definition fibre_std :: "real list \<Rightarrow> real" where
  "fibre_std ys = sqrt (sum_list (map (\<lambda>y. (y - fibre_mean ys)\<^sup>2) ys) / real (length ys))"

definition nan_std :: "real option list \<Rightarrow> real option" where
  "nan_std xs = (if xs = [] then None else map_option fibre_std (those xs))"

definition nan_mean_agg :: "real option nd3 \<Rightarrow> error + real option nd2" where
  "nan_mean_agg post_samples = Inr (along_axis1 nan_mean post_samples)"

definition nan_std_agg :: "real option nd3 \<Rightarrow> error + real option nd2" where
  "nan_std_agg post_samples = Inr (along_axis1 nan_std post_samples)"

definition python_min :: "real option \<Rightarrow> real option \<Rightarrow> real option" where
  "python_min a b = (case (a, b) of (Some x, Some y) \<Rightarrow> (if y < x then b else a) | _ \<Rightarrow> a)"

definition python_max :: "real option \<Rightarrow> real option \<Rightarrow> real option" where
  "python_max a b = (case (a, b) of (Some x, Some y) \<Rightarrow> (if x < y then b else a) | _ \<Rightarrow> a)"

definition nan_pad :: "real option \<Rightarrow> real option \<Rightarrow> real option \<times> real option" where
  "nan_pad lower upper =
     (case (lower, upper) of
        (Some l, Some u) \<Rightarrow> (Some (l - (u - l) * (1 / 10)), Some (u + (u - l) * (1 / 10)))
      | _ \<Rightarrow> (None, None))"

definition nan_library :: "real option plot_library" where
  "nan_library =
     \<lparr>draw_points = (\<lambda>xs ys bars. Inr ()),
      array_min = (\<lambda>xs. map_option (\<lambda>ys. fold min ys (hd ys)) (those xs)),
      array_max = (\<lambda>xs. map_option (\<lambda>ys. fold max ys (hd ys)) (those xs)),
      builtin_min = python_min,
      builtin_max = python_max,
      pad_limits = nan_pad,
      set_limits = (\<lambda>lim. if fst lim = None \<or> snd lim = None then Inl ValueError else Inr ()),
      r2_score = (\<lambda>xs ys. if None \<in> set xs \<or> None \<in> set ys then Inl ValueError
                           else Inr (Some 0)),
      corrcoef = (\<lambda>xs ys. if None \<in> set xs \<or> None \<in> set ys then Inr None else Inr (Some 0)),
      title_and_prettify = (\<lambda>name. Inr ())\<rparr>"

definition undrawn_post :: "real option nd3" where
  "undrawn_post = \<lparr>shape3 = (1, 0, 7), items3 = [[]]\<rparr>"

definition undrawn_prior :: "real option nd2" where
  "undrawn_prior =
     \<lparr>shape2 = (1, 7), items2 = [[Some 1, Some 2, Some 3, Some 4, Some 5, Some 6, Some 7]]\<rparr>"

definition two_post :: "real nd3" where
  "two_post = \<lparr>shape3 = (2, 1, 2), items3 = [[[1, 5]], [[3, 2]]]\<rparr>"

definition two_prior :: "real nd2" where
  "two_prior = \<lparr>shape2 = (2, 2), items2 = [[2, 4], [0, 3]]\<rparr>"


section \<open>Properties of the training loops\<close>

subsection \<open>One iteration and the loops\<close>

lemma try_bind_Inl [simp]: "try_bind (Inl e) f = Inl e"
  by (simp add: try_bind_def)

lemma try_bind_Inr [simp]: "try_bind (Inr x) f = f x"
  by (simp add: try_bind_def)

lemma try_bind_eq_Inr: "try_bind m f = Inr y \<longleftrightarrow> (\<exists>x. m = Inr x \<and> f x = Inr y)"
  by (cases m) simp_all

lemma getitem_eq_Inr: "getitem d k = Inr v \<longleftrightarrow> d k = Some v"
  by (simp add: getitem_def split: option.splits)

lemma append_item_eq_Inr:
  "append_item d k v = Inr d' \<longleftrightarrow> (\<exists>xs. d k = Some xs \<and> d' = d(k \<mapsto> xs @ [v]))"
  by (auto simp: append_item_def try_bind_eq_Inr getitem_eq_Inr)

lemma store_losses_eq_Inr:
  "store_losses ls r = Inr ls' \<longleftrightarrow>
     (\<exists>rs hs. ls ''regularization'' = Some rs \<and> ls ''loss'' = Some hs \<and>
        ls' = ls(''regularization'' \<mapsto> rs @ [fw_w_decay r], ''loss'' \<mapsto> hs @ [fw_loss r]))"
  by (auto simp: store_losses_def try_bind_eq_Inr append_item_eq_Inr)

lemma forward_values:
  "fw_loss (loss_and_regularization L w inputs loss_args) = loss_fun L loss_args"
  "fw_loss_args (loss_and_regularization L w inputs loss_args) = loss_args"
  "fw_aux (loss_and_regularization L w inputs loss_args) = model_losses L w inputs"
  "fw_inputs (loss_and_regularization L w inputs loss_args) = inputs"
  "fw_w_decay (loss_and_regularization L w inputs loss_args) = sum_list (model_losses L w inputs)"
  "fw_total_loss (loss_and_regularization L w inputs loss_args) =
     fw_loss (loss_and_regularization L w inputs loss_args)
       + fw_w_decay (loss_and_regularization L w inputs loss_args)"
  by (simp_all add: loss_and_regularization_def Let_def)

lemma forward_online_ok: "forward_online L method w batch = Inr r \<Longrightarrow> forward_ok L w r"
  by (auto simp: forward_online_def forward_ok_def try_bind_eq_Inr Let_def forward_values
           split: if_splits)

lemma forward_offline_ok: "forward_offline L method w batch = Inr r \<Longrightarrow> forward_ok L w r"
  by (auto simp: forward_offline_def forward_ok_def try_bind_eq_Inr Let_def forward_values
           split: if_splits)

lemma one_step_backprop_ok:
  assumes "one_step_backprop L cv cm (\<lambda>w. fwd w batch) batch r w = (w', e)"
    and "fwd w batch = Inr r"
  shows "step_ok L cv cm fwd e \<and> ts_weights e = w \<and> ts_batch e = batch \<and> ts_forward e = r \<and>
         w' = apply_gradients L (ts_applied e) w"
  using assms by (cases cv) (auto simp: one_step_backprop_def step_ok_def Let_def)

lemma online_iteration_Inr:
  assumes "online_iteration L dg bs cv cm ns method it s = Inr s'"
  shows "\<exists>e running.
           step_ok L cv cm (forward_online L method) e \<and>
           ts_weights e = weights s \<and>
           ts_batch e = fst (dg bs (source s)) \<and>
           source s' = snd (dg bs (source s)) \<and>
           tape_steps s' = tape_steps s @ [e] \<and>
           weights s' = apply_gradients L (ts_applied e) (weights s) \<and>
           store_losses (losses s) (ts_forward e) = Inr (losses s') \<and>
           running_loss (losses s') (fw_loss (ts_forward e)) it ns = Inr running \<and>
           p_bar s' = report_progress (p_bar s)
             (Online_report it (fw_loss (ts_forward e)) running (fw_w_decay (ts_forward e)))"
proof -
  obtain batch g' where dg: "dg bs (source s) = (batch, g')"
    by (cases "dg bs (source s)")
  from assms dg obtain r where r: "forward_online L method (weights s) batch = Inr r"
    by (auto simp: online_iteration_def try_bind_eq_Inr)
  obtain w' e where bp:
    "one_step_backprop L cv cm (\<lambda>w. forward_online L method w batch) batch r (weights s) = (w', e)"
    by (cases "one_step_backprop L cv cm (\<lambda>w. forward_online L method w batch) batch r (weights s)")
  note ok = one_step_backprop_ok [where fwd = "forward_online L method", OF bp r]
  from assms dg r bp obtain ls running where
    "store_losses (losses s) r = Inr ls" "running_loss ls (fw_loss r) it ns = Inr running"
    "s' = \<lparr>weights = w', source = g', losses = ls,
           p_bar = report_progress (p_bar s) (Online_report it (fw_loss r) running (fw_w_decay r)),
           tape_steps = tape_steps s @ [e]\<rparr>"
    by (auto simp: online_iteration_def try_bind_eq_Inr)
  with ok dg show ?thesis by auto
qed

lemma offline_iteration_Inr:
  assumes "offline_iteration L cv cm method bi batch s = Inr s'"
  shows "\<exists>e.
           step_ok L cv cm (forward_offline L method) e \<and>
           ts_weights e = weights s \<and>
           ts_batch e = batch \<and>
           tape_steps s' = tape_steps s @ [e] \<and>
           weights s' = apply_gradients L (ts_applied e) (weights s) \<and>
           store_losses (losses s) (ts_forward e) = Inr (losses s') \<and>
           p_bar s' = report_progress (p_bar s)
             (Offline_report bi (fw_loss (ts_forward e)) (fw_w_decay (ts_forward e)))"
proof -
  from assms obtain r where r: "forward_offline L method (weights s) batch = Inr r"
    by (auto simp: offline_iteration_def try_bind_eq_Inr)
  obtain w' e where bp:
    "one_step_backprop L cv cm (\<lambda>w. forward_offline L method w batch) batch r (weights s) = (w', e)"
    by (cases "one_step_backprop L cv cm (\<lambda>w. forward_offline L method w batch) batch r (weights s)")
  note ok = one_step_backprop_ok [where fwd = "forward_offline L method", OF bp r]
  from assms r bp obtain ls where
    "store_losses (losses s) r = Inr ls"
    "s' = \<lparr>weights = w', source = (), losses = ls,
           p_bar = report_progress (p_bar s) (Offline_report bi (fw_loss r) (fw_w_decay r)),
           tape_steps = tape_steps s @ [e]\<rparr>"
    by (auto simp: offline_iteration_def try_bind_eq_Inr)
  with ok show ?thesis by auto
qed

lemma ran_Nil: "ran L cv cm fwd s [] s"
  by (simp add: ran_def)

lemma ran_Cons:
  assumes e: "step_ok L cv cm fwd e"
    and st: "tape_steps s1 = tape_steps s @ [e]"
    and w: "weights s1 = apply_gradients L (ts_applied e) (weights s)"
    and ls: "store_losses (losses s) (ts_forward e) = Inr (losses s1)"
    and rest: "ran L cv cm fwd s1 new s'"
  shows "ran L cv cm fwd s (e # new) s'"
proof -
  from ls obtain rs hs where
    old: "losses s ''regularization'' = Some rs" "losses s ''loss'' = Some hs" and
    new: "losses s1 = (losses s)(''regularization'' \<mapsto> rs @ [fw_w_decay (ts_forward e)],
                                 ''loss'' \<mapsto> hs @ [fw_loss (ts_forward e)])"
    by (auto simp: store_losses_eq_Inr)
  have d: "dom (losses s1) = dom (losses s)"
    using old by (auto simp: new)
  have l1: "losses s1 ''loss'' = Some (hs @ [fw_loss (ts_forward e)])"
    by (simp add: new)
  have r1: "losses s1 ''regularization'' = Some (rs @ [fw_w_decay (ts_forward e)])"
    by (simp add: new)
  from rest e st w d l1 r1 old show ?thesis
    by (simp add: ran_def)
qed

lemma online_loop_ran:
  "online_loop L dg bs cv cm ns method its s = Inr s' \<Longrightarrow>
     \<exists>new. length new = length its \<and> ran L cv cm (forward_online L method) s new s'"
proof (induction its arbitrary: s)
  case Nil
  then show ?case by (auto intro: ran_Nil)
next
  case (Cons it its)
  from Cons.prems obtain s1 where
    s1: "online_iteration L dg bs cv cm ns method it s = Inr s1" and
    rest: "online_loop L dg bs cv cm ns method its s1 = Inr s'"
    by (auto simp: try_bind_eq_Inr)
  from Cons.IH [OF rest] obtain new where
    new: "length new = length its" "ran L cv cm (forward_online L method) s1 new s'"
    by blast
  from online_iteration_Inr [OF s1] obtain e where
    "step_ok L cv cm (forward_online L method) e"
    "tape_steps s1 = tape_steps s @ [e]"
    "weights s1 = apply_gradients L (ts_applied e) (weights s)"
    "store_losses (losses s) (ts_forward e) = Inr (losses s1)"
    by blast
  then have "ran L cv cm (forward_online L method) s (e # new) s'"
    using new(2) by (rule ran_Cons)
  with new(1) show ?case
    by (intro exI [of _ "e # new"]) simp
qed

lemma offline_loop_ran:
  "offline_loop L cv cm method bs s = Inr s' \<Longrightarrow>
     \<exists>new. map ts_batch new = map snd bs \<and> ran L cv cm (forward_offline L method) s new s'"
proof (induction bs arbitrary: s)
  case Nil
  then show ?case by (auto intro: ran_Nil)
next
  case (Cons b bs)
  obtain bi batch where b: "b = (bi, batch)" by (cases b)
  from Cons.prems b obtain s1 where
    s1: "offline_iteration L cv cm method bi batch s = Inr s1" and
    rest: "offline_loop L cv cm method bs s1 = Inr s'"
    by (auto simp: try_bind_eq_Inr)
  from Cons.IH [OF rest] obtain new where
    new: "map ts_batch new = map snd bs" "ran L cv cm (forward_offline L method) s1 new s'"
    by blast
  from offline_iteration_Inr [OF s1] obtain e where
    e: "ts_batch e = batch" and
    "step_ok L cv cm (forward_offline L method) e"
    "tape_steps s1 = tape_steps s @ [e]"
    "weights s1 = apply_gradients L (ts_applied e) (weights s)"
    "store_losses (losses s) (ts_forward e) = Inr (losses s1)"
    by blast
  then have "ran L cv cm (forward_offline L method) s (e # new) s'"
    using new(2) by (intro ran_Cons)
  with new(1) e b show ?case
    by (intro exI [of _ "e # new"]) simp
qed

lemma running_loss_Inr:
  "running_loss ls l it ns = Inr running \<Longrightarrow> ls ''loss'' = Some h \<Longrightarrow>
     running = (if it < ns then Some l else np_mean (slice_from (- ns) h))"
  by (auto simp: running_loss_def try_bind_eq_Inr getitem_eq_Inr split: if_splits)

lemma online_loop_reports:
  assumes "online_loop L dg bs cv cm ns method its s = Inr s'"
    and "p_bar s = Some p" and "losses s ''loss'' = Some hs"
  shows "\<exists>p' new. p_bar s' = Some p' \<and> losses s' ''loss'' = Some (hs @ new) \<and>
           length new = length its \<and>
           length (postfix p') = length (postfix p) + length its \<and>
           take (length (postfix p)) (postfix p') = postfix p \<and>
           (\<forall>k < length its. \<exists>d.
              postfix p' ! (length (postfix p) + k) =
                Online_report (its ! k) (new ! k)
                  (if its ! k < ns then Some (new ! k)
                   else np_mean (slice_from (- ns) (hs @ take (Suc k) new))) d)"
  using assms
proof (induction its arbitrary: s p hs)
  case Nil
  then show ?case by simp
next
  case (Cons it its)
  from Cons.prems(1) obtain s1 where
    s1: "online_iteration L dg bs cv cm ns method it s = Inr s1" and
    rest: "online_loop L dg bs cv cm ns method its s1 = Inr s'"
    by (auto simp: try_bind_eq_Inr)
  from online_iteration_Inr [OF s1] obtain e running where
    "tape_steps s1 = tape_steps s @ [e]" and
    st: "store_losses (losses s) (ts_forward e) = Inr (losses s1)" and
    ru: "running_loss (losses s1) (fw_loss (ts_forward e)) it ns = Inr running" and
    pb: "p_bar s1 = report_progress (p_bar s)
           (Online_report it (fw_loss (ts_forward e)) running (fw_w_decay (ts_forward e)))"
    by blast
  define l where "l = fw_loss (ts_forward e)"
  define rep where "rep = Online_report it l running (fw_w_decay (ts_forward e))"
  define p1 where "p1 = p\<lparr>postfix := postfix p @ [rep], ticks := ticks p + 1\<rparr>"
  have h1: "losses s1 ''loss'' = Some (hs @ [l])"
    using st Cons.prems(3) by (auto simp: store_losses_eq_Inr l_def)
  have run: "running = (if it < ns then Some l else np_mean (slice_from (- ns) (hs @ [l])))"
    using running_loss_Inr [OF ru h1] by (simp add: l_def)
  have pb1: "p_bar s1 = Some p1"
    using pb Cons.prems(2) by (simp add: report_progress_def p1_def rep_def l_def)
  from Cons.IH [OF rest pb1 h1] obtain p' new where
    a: "p_bar s' = Some p'" and b: "losses s' ''loss'' = Some ((hs @ [l]) @ new)" and
    c: "length new = length its" and
    d: "length (postfix p') = length (postfix p1) + length its" and
    t: "take (length (postfix p1)) (postfix p') = postfix p1" and
    f: "\<forall>k < length its. \<exists>d.
          postfix p' ! (length (postfix p1) + k) =
            Online_report (its ! k) (new ! k)
              (if its ! k < ns then Some (new ! k)
               else np_mean (slice_from (- ns) ((hs @ [l]) @ take (Suc k) new))) d"
    by blast
  have len1: "length (postfix p1) = Suc (length (postfix p))"
    by (simp add: p1_def)
  have pre: "postfix p' = postfix p1 @ drop (length (postfix p1)) (postfix p')"
    using t by (metis append_take_drop_id)
  have t0: "take (length (postfix p)) (postfix p') = postfix p"
    by (subst pre) (simp add: p1_def)
  have first: "postfix p' ! length (postfix p) = rep"
    by (subst pre) (simp add: p1_def nth_append)
  have nth: "\<exists>d. postfix p' ! (length (postfix p) + k) =
                Online_report ((it # its) ! k) ((l # new) ! k)
                  (if (it # its) ! k < ns then Some ((l # new) ! k)
                   else np_mean (slice_from (- ns) (hs @ take (Suc k) (l # new)))) d"
    if k: "k < length (it # its)" for k
  proof (cases k)
    case 0
    then show ?thesis using first run by (auto simp: rep_def)
  next
    case (Suc j)
    with k have "j < length its" by simp
    with f obtain d where
      "postfix p' ! (length (postfix p1) + j) =
         Online_report (its ! j) (new ! j)
           (if its ! j < ns then Some (new ! j)
            else np_mean (slice_from (- ns) ((hs @ [l]) @ take (Suc j) new))) d"
      by blast
    then show ?thesis using Suc len1 by auto
  qed
  show ?case
    using a b c d t0 nth len1
    by (intro exI [of _ p'] exI [of _ "l # new"]) simp
qed

subsection \<open>The history\<close>

lemmas toy_simps =
  toy_learner_def toy_data_gen_def toy_dataset_def no_reports_def
  train_online_run_def train_offline_run_def initial_losses_def
  online_iteration_def offline_iteration_def forward_online_def forward_offline_def
  online_inputs_def online_loss_args_def offline_inputs_def offline_loss_args_def
  loss_and_regularization_def one_step_backprop_def store_losses_def append_item_def
  getitem_def index_def running_loss_def report_progress_def np_mean_def slice_from_def
  Let_def enumerate_eq_zip upto.simps

lemma toy_online_run:
  "\<exists>s. train_online_run toy_learner 0 toy_data_gen 0 2 32 (Some no_reports) (Some 5)
          ''global_norm'' 100 ''flow'' = Inr s \<and>
       losses s ''loss'' = Some [1, 11 / 2] \<and>
       losses s ''regularization'' = Some [1 / 2, 1 / 2] \<and>
       p_bar s = Some \<lparr>postfix = [Online_report 1 1 (Some 1) (1 / 2),
                                   Online_report 2 (11 / 2) (Some (11 / 2)) (1 / 2)], ticks = 2\<rparr> \<and>
       map ts_gradients (tape_steps s) = [[[3], [4]], [[3], [4]]] \<and>
       map ts_applied (tape_steps s) = [[[3 / 2], [2]], [[3 / 2], [2]]] \<and>
       weights s = 7"
  by (simp add: toy_simps)

lemma toy_offline_run:
  "\<exists>s. train_offline_run toy_learner 0 toy_dataset (Some no_reports) None
          ''global_norm'' ''flow'' = Inr s \<and>
       losses s ''loss'' = Some [1, 9, 17] \<and>
       losses s ''regularization'' = Some [1 / 2, 1 / 2, 1 / 2] \<and>
       map ts_applied (tape_steps s) = [[[3], [4]], [[3], [4]], [[3], [4]]] \<and>
       weights s = 21"
  by (simp add: toy_simps)

lemma initial_losses_simps:
  "initial_losses ''loss'' = Some []" "initial_losses ''regularization'' = Some []"
  "dom initial_losses = {''loss'', ''regularization''}"
  by (auto simp: initial_losses_def)

lemma train_online_run_ran:
  assumes "train_online_run L w dg g iterations bs pb cv cm ns method = Inr fin"
  shows "length (tape_steps fin) = nat iterations \<and>
         (\<forall>e \<in> set (tape_steps fin). step_ok L cv cm (forward_online L method) e) \<and>
         weights fin = foldl (\<lambda>w e. apply_gradients L (ts_applied e) w) w (tape_steps fin) \<and>
         dom (losses fin) = {''loss'', ''regularization''} \<and>
         losses fin ''loss'' = Some (map (\<lambda>e. fw_loss (ts_forward e)) (tape_steps fin)) \<and>
         losses fin ''regularization'' = Some (map (\<lambda>e. fw_w_decay (ts_forward e)) (tape_steps fin))"
proof -
  from assms obtain new where
    "length new = length [1..iterations]"
    "ran L cv cm (forward_online L method)
       \<lparr>weights = w, source = g, losses = initial_losses, p_bar = pb, tape_steps = []\<rparr> new fin"
    unfolding train_online_run_def by (blast dest: online_loop_ran)
  then show ?thesis
    by (simp add: ran_def initial_losses_simps)
qed

lemma train_offline_run_ran:
  assumes "train_offline_run L w dataset pb cv cm method = Inr fin"
  shows "map ts_batch (tape_steps fin) = dataset \<and>
         (\<forall>e \<in> set (tape_steps fin). step_ok L cv cm (forward_offline L method) e) \<and>
         weights fin = foldl (\<lambda>w e. apply_gradients L (ts_applied e) w) w (tape_steps fin) \<and>
         dom (losses fin) = {''loss'', ''regularization''} \<and>
         losses fin ''loss'' = Some (map (\<lambda>e. fw_loss (ts_forward e)) (tape_steps fin)) \<and>
         losses fin ''regularization'' = Some (map (\<lambda>e. fw_w_decay (ts_forward e)) (tape_steps fin))"
proof -
  from assms obtain new where
    "map ts_batch new = map snd (enumerate 0 dataset)"
    "ran L cv cm (forward_offline L method)
       \<lparr>weights = w, source = (), losses = initial_losses, p_bar = pb, tape_steps = []\<rparr> new fin"
    unfolding train_offline_run_def by (blast dest: offline_loop_ran)
  then show ?thesis
    by (simp add: ran_def initial_losses_simps)
qed

text \<open>
  Claim C2. A call that returns hands back a mapping with exactly the keys \<open>loss\<close> and
  \<open>regularization\<close>. After \<open>train_online\<close> both lists have one entry per iteration, so
  their length is the iteration count; after \<open>train_offline\<close> both have one entry per batch
  of the dataset, whose batches were visited once each, in order.
\<close>

theorem history_lengths:
  "(train_online L w dg g iterations bs pb cv cm ns meth = Inr h \<longrightarrow>
      dom h = {''loss'', ''regularization''} \<and>
      (\<exists>ls rs. h ''loss'' = Some ls \<and> h ''regularization'' = Some rs \<and>
         length ls = nat iterations \<and> length rs = nat iterations \<and>
         (0 \<le> iterations \<longrightarrow> int (length ls) = iterations \<and> int (length rs) = iterations))) \<and>
   (train_offline L w dataset pb cv cm meth = Inr h' \<longrightarrow>
      dom h' = {''loss'', ''regularization''} \<and>
      (\<exists>ls rs. h' ''loss'' = Some ls \<and> h' ''regularization'' = Some rs \<and>
         length ls = length dataset \<and> length rs = length dataset) \<and>
      (\<exists>fin. train_offline_run L w dataset pb cv cm meth = Inr fin \<and>
         map ts_batch (tape_steps fin) = dataset))"
proof (intro conjI impI)
  assume "train_online L w dg g iterations bs pb cv cm ns meth = Inr h"
  then obtain fin where
    fin: "train_online_run L w dg g iterations bs pb cv cm ns meth = Inr fin" and h: "h = losses fin"
    by (auto simp: train_online_def try_bind_eq_Inr)
  note r = train_online_run_ran [OF fin]
  from r show "dom h = {''loss'', ''regularization''}" by (simp add: h)
  from r show "\<exists>ls rs. h ''loss'' = Some ls \<and> h ''regularization'' = Some rs \<and>
         length ls = nat iterations \<and> length rs = nat iterations \<and>
         (0 \<le> iterations \<longrightarrow> int (length ls) = iterations \<and> int (length rs) = iterations)"
    by (simp add: h)
next
  assume a: "train_offline L w dataset pb cv cm meth = Inr h'"
  then obtain fin where
    fin: "train_offline_run L w dataset pb cv cm meth = Inr fin" and h: "h' = losses fin"
    by (auto simp: train_offline_def try_bind_eq_Inr)
  note r = train_offline_run_ran [OF fin]
  have len: "length (tape_steps fin) = length dataset"
    using r by (metis length_map)
  from r show "dom h' = {''loss'', ''regularization''}" by (simp add: h)
  from r len show "\<exists>ls rs. h' ''loss'' = Some ls \<and> h' ''regularization'' = Some rs \<and>
         length ls = length dataset \<and> length rs = length dataset"
    by (simp add: h)
  from r fin show "\<exists>fin. train_offline_run L w dataset pb cv cm meth = Inr fin \<and>
         map ts_batch (tape_steps fin) = dataset"
    by simp
qed

theorem history_lengths_witness:
  "(\<exists>h. train_online toy_learner 0 toy_data_gen 0 2 32 (Some no_reports) (Some 5)
            ''global_norm'' 100 ''flow'' = Inr h \<and>
        dom h = {''loss'', ''regularization''} \<and>
        (\<exists>ls rs. h ''loss'' = Some ls \<and> h ''regularization'' = Some rs \<and>
           int (length ls) = 2 \<and> int (length rs) = 2)) \<and>
   (\<exists>h'. train_offline toy_learner 0 toy_dataset (Some no_reports) None
            ''global_norm'' ''flow'' = Inr h' \<and>
        dom h' = {''loss'', ''regularization''} \<and>
        (\<exists>ls rs. h' ''loss'' = Some ls \<and> h' ''regularization'' = Some rs \<and>
           length ls = length toy_dataset \<and> length rs = length toy_dataset))"
proof -
  from toy_online_run obtain s where
    s: "train_online_run toy_learner 0 toy_data_gen 0 2 32 (Some no_reports) (Some 5)
          ''global_norm'' 100 ''flow'' = Inr s"
    by blast
  from toy_offline_run obtain s' where
    s': "train_offline_run toy_learner 0 toy_dataset (Some no_reports) None
          ''global_norm'' ''flow'' = Inr s'"
    by blast
  have 1: "train_online toy_learner 0 toy_data_gen 0 2 32 (Some no_reports) (Some 5)
            ''global_norm'' 100 ''flow'' = Inr (losses s)"
    by (simp add: train_online_def s)
  have 2: "train_offline toy_learner 0 toy_dataset (Some no_reports) None
            ''global_norm'' ''flow'' = Inr (losses s')"
    by (simp add: train_offline_def s')
  note a = history_lengths [where L = toy_learner and w = 0 and dg = toy_data_gen and g = 0
      and iterations = 2 and bs = 32 and pb = "Some no_reports" and cv = "Some 5"
      and cm = "''global_norm''" and ns = 100 and meth = "''flow''" and h = "losses s",
      THEN conjunct1, THEN mp, OF 1]
  note b = history_lengths [where L = toy_learner and w = 0 and dataset = toy_dataset
      and pb = "Some no_reports" and cv = None
      and cm = "''global_norm''" and meth = "''flow''" and h' = "losses s'",
      THEN conjunct2, THEN mp, OF 2]
  from a b 1 2 show ?thesis by auto
qed

subsection \<open>Regularization, clipping and the running loss\<close>

lemma total_loss_value:
  "fw_total_loss (loss_and_regularization L w inputs loss_args) =
     loss_fun L loss_args + sum_list (model_losses L w inputs)"
  by (simp add: loss_and_regularization_def Let_def)

lemma step_ok_penalty:
  assumes ok: "step_ok L cv cm fwd e"
    and fwd: "\<And>w b. fwd w b =
      try_bind (inp b) (\<lambda>inputs.
      try_bind (args b (model_call L w inputs)) (\<lambda>loss_args.
        Inr (loss_and_regularization L w inputs loss_args)))"
  shows "inp (ts_batch e) = Inr (fw_inputs (ts_forward e)) \<and>
         args (ts_batch e) (model_call L (ts_weights e) (fw_inputs (ts_forward e))) =
           Inr (fw_loss_args (ts_forward e)) \<and>
         fw_loss (ts_forward e) = loss_fun L (fw_loss_args (ts_forward e)) \<and>
         fw_aux (ts_forward e) = model_losses L (ts_weights e) (fw_inputs (ts_forward e)) \<and>
         fw_w_decay (ts_forward e) = sum_list (fw_aux (ts_forward e)) \<and>
         (fw_aux (ts_forward e) = [] \<longrightarrow> fw_w_decay (ts_forward e) = 0) \<and>
         ts_gradients e = tape_gradient L (ts_objective e) (ts_weights e) \<and>
         ts_objective e (ts_weights e) =
           Inr (fw_loss (ts_forward e) + fw_w_decay (ts_forward e)) \<and>
         (\<forall>w'. ts_objective e w' =
            try_bind (inp (ts_batch e)) (\<lambda>inputs.
            try_bind (args (ts_batch e) (model_call L w' inputs)) (\<lambda>loss_args.
              Inr (loss_fun L loss_args + sum_list (model_losses L w' inputs)))))"
proof -
  from ok have
    f: "fwd (ts_weights e) (ts_batch e) = Inr (ts_forward e)" and
    o: "ts_objective e = (\<lambda>w'. try_bind (fwd w' (ts_batch e)) (\<lambda>r'. Inr (fw_total_loss r')))" and
    g: "ts_gradients e = tape_gradient L (ts_objective e) (ts_weights e)"
    by (simp_all add: step_ok_def)
  from f obtain inputs loss_args where
    i: "inp (ts_batch e) = Inr inputs" and
    a: "args (ts_batch e) (model_call L (ts_weights e) inputs) = Inr loss_args" and
    r: "ts_forward e = loss_and_regularization L (ts_weights e) inputs loss_args"
    unfolding fwd by (auto simp: try_bind_eq_Inr)
  have all: "ts_objective e w' =
      try_bind (inp (ts_batch e)) (\<lambda>inputs.
      try_bind (args (ts_batch e) (model_call L w' inputs)) (\<lambda>loss_args.
        Inr (loss_fun L loss_args + sum_list (model_losses L w' inputs))))" for w'
  proof (cases "args (ts_batch e) (model_call L w' inputs)")
    case (Inl err)
    then show ?thesis by (simp add: o fwd i)
  next
    case (Inr la)
    then show ?thesis by (simp add: o fwd i total_loss_value)
  qed
  have here: "ts_objective e (ts_weights e) =
      Inr (fw_loss (ts_forward e) + fw_w_decay (ts_forward e))"
    by (simp add: all i a r forward_values)
  from i a g all here show ?thesis
    by (simp add: r forward_values)
qed

text \<open>
  Claim C5. In every iteration of both loops the task loss is the loss function of the
  loss arguments gathered from the batch and the model's outputs, the regularization penalty
  is the sum of the losses the model declared in that forward pass (0 when it declared
  none), both are the values appended to the history, and the tape differentiates, as a
  function of the weights, the task loss plus that penalty.
\<close>

theorem penalty_and_objective:
  "(train_online_run L w dg g iterations bs pb cv cm ns meth = Inr fin \<longrightarrow>
      length (tape_steps fin) = nat iterations \<and>
      losses fin ''loss'' = Some (map (\<lambda>e. fw_loss (ts_forward e)) (tape_steps fin)) \<and>
      losses fin ''regularization'' = Some (map (\<lambda>e. fw_w_decay (ts_forward e)) (tape_steps fin)) \<and>
      (\<forall>e \<in> set (tape_steps fin).
         online_inputs meth (ts_batch e) = Inr (fw_inputs (ts_forward e)) \<and>
         online_loss_args meth (ts_batch e) (model_call L (ts_weights e) (fw_inputs (ts_forward e))) =
           Inr (fw_loss_args (ts_forward e)) \<and>
         fw_loss (ts_forward e) = loss_fun L (fw_loss_args (ts_forward e)) \<and>
         fw_aux (ts_forward e) = model_losses L (ts_weights e) (fw_inputs (ts_forward e)) \<and>
         fw_w_decay (ts_forward e) = sum_list (fw_aux (ts_forward e)) \<and>
         (fw_aux (ts_forward e) = [] \<longrightarrow> fw_w_decay (ts_forward e) = 0) \<and>
         ts_gradients e = tape_gradient L (ts_objective e) (ts_weights e) \<and>
         ts_objective e (ts_weights e) =
           Inr (fw_loss (ts_forward e) + fw_w_decay (ts_forward e)) \<and>
         (\<forall>w'. ts_objective e w' =
            try_bind (online_inputs meth (ts_batch e)) (\<lambda>inputs.
            try_bind (online_loss_args meth (ts_batch e) (model_call L w' inputs)) (\<lambda>loss_args.
              Inr (loss_fun L loss_args + sum_list (model_losses L w' inputs))))))) \<and>
   (train_offline_run L w dataset pb cv cm meth = Inr fin' \<longrightarrow>
      length (tape_steps fin') = length dataset \<and>
      losses fin' ''loss'' = Some (map (\<lambda>e. fw_loss (ts_forward e)) (tape_steps fin')) \<and>
      losses fin' ''regularization'' = Some (map (\<lambda>e. fw_w_decay (ts_forward e)) (tape_steps fin')) \<and>
      (\<forall>e \<in> set (tape_steps fin').
         offline_inputs meth (ts_batch e) = Inr (fw_inputs (ts_forward e)) \<and>
         offline_loss_args meth (ts_batch e) (model_call L (ts_weights e) (fw_inputs (ts_forward e))) =
           Inr (fw_loss_args (ts_forward e)) \<and>
         fw_loss (ts_forward e) = loss_fun L (fw_loss_args (ts_forward e)) \<and>
         fw_aux (ts_forward e) = model_losses L (ts_weights e) (fw_inputs (ts_forward e)) \<and>
         fw_w_decay (ts_forward e) = sum_list (fw_aux (ts_forward e)) \<and>
         (fw_aux (ts_forward e) = [] \<longrightarrow> fw_w_decay (ts_forward e) = 0) \<and>
         ts_gradients e = tape_gradient L (ts_objective e) (ts_weights e) \<and>
         ts_objective e (ts_weights e) =
           Inr (fw_loss (ts_forward e) + fw_w_decay (ts_forward e)) \<and>
         (\<forall>w'. ts_objective e w' =
            try_bind (offline_inputs meth (ts_batch e)) (\<lambda>inputs.
            try_bind (offline_loss_args meth (ts_batch e) (model_call L w' inputs)) (\<lambda>loss_args.
              Inr (loss_fun L loss_args + sum_list (model_losses L w' inputs)))))))"
proof (intro conjI impI)
  assume run: "train_online_run L w dg g iterations bs pb cv cm ns meth = Inr fin"
  note r = train_online_run_ran [OF run]
  from r show "length (tape_steps fin) = nat iterations" by simp
  from r show "losses fin ''loss'' =
      Some (map (\<lambda>e. fw_loss (ts_forward e)) (tape_steps fin))" by simp
  from r show "losses fin ''regularization'' =
      Some (map (\<lambda>e. fw_w_decay (ts_forward e)) (tape_steps fin))" by simp
  show "\<forall>e \<in> set (tape_steps fin).
         online_inputs meth (ts_batch e) = Inr (fw_inputs (ts_forward e)) \<and>
         online_loss_args meth (ts_batch e) (model_call L (ts_weights e) (fw_inputs (ts_forward e))) =
           Inr (fw_loss_args (ts_forward e)) \<and>
         fw_loss (ts_forward e) = loss_fun L (fw_loss_args (ts_forward e)) \<and>
         fw_aux (ts_forward e) = model_losses L (ts_weights e) (fw_inputs (ts_forward e)) \<and>
         fw_w_decay (ts_forward e) = sum_list (fw_aux (ts_forward e)) \<and>
         (fw_aux (ts_forward e) = [] \<longrightarrow> fw_w_decay (ts_forward e) = 0) \<and>
         ts_gradients e = tape_gradient L (ts_objective e) (ts_weights e) \<and>
         ts_objective e (ts_weights e) =
           Inr (fw_loss (ts_forward e) + fw_w_decay (ts_forward e)) \<and>
         (\<forall>w'. ts_objective e w' =
            try_bind (online_inputs meth (ts_batch e)) (\<lambda>inputs.
            try_bind (online_loss_args meth (ts_batch e) (model_call L w' inputs)) (\<lambda>loss_args.
              Inr (loss_fun L loss_args + sum_list (model_losses L w' inputs)))))"
  proof
    fix e assume "e \<in> set (tape_steps fin)"
    with r have "step_ok L cv cm (forward_online L meth) e" by simp
    then show "
         online_inputs meth (ts_batch e) = Inr (fw_inputs (ts_forward e)) \<and>
         online_loss_args meth (ts_batch e) (model_call L (ts_weights e) (fw_inputs (ts_forward e))) =
           Inr (fw_loss_args (ts_forward e)) \<and>
         fw_loss (ts_forward e) = loss_fun L (fw_loss_args (ts_forward e)) \<and>
         fw_aux (ts_forward e) = model_losses L (ts_weights e) (fw_inputs (ts_forward e)) \<and>
         fw_w_decay (ts_forward e) = sum_list (fw_aux (ts_forward e)) \<and>
         (fw_aux (ts_forward e) = [] \<longrightarrow> fw_w_decay (ts_forward e) = 0) \<and>
         ts_gradients e = tape_gradient L (ts_objective e) (ts_weights e) \<and>
         ts_objective e (ts_weights e) =
           Inr (fw_loss (ts_forward e) + fw_w_decay (ts_forward e)) \<and>
         (\<forall>w'. ts_objective e w' =
            try_bind (online_inputs meth (ts_batch e)) (\<lambda>inputs.
            try_bind (online_loss_args meth (ts_batch e) (model_call L w' inputs)) (\<lambda>loss_args.
              Inr (loss_fun L loss_args + sum_list (model_losses L w' inputs)))))"
      by (rule step_ok_penalty) (simp add: forward_online_def Let_def)
  qed
next
  assume run: "train_offline_run L w dataset pb cv cm meth = Inr fin'"
  note r = train_offline_run_ran [OF run]
  from r show "length (tape_steps fin') = length dataset" by (metis length_map)
  from r show "losses fin' ''loss'' =
      Some (map (\<lambda>e. fw_loss (ts_forward e)) (tape_steps fin'))" by simp
  from r show "losses fin' ''regularization'' =
      Some (map (\<lambda>e. fw_w_decay (ts_forward e)) (tape_steps fin'))" by simp
  show "\<forall>e \<in> set (tape_steps fin').
         offline_inputs meth (ts_batch e) = Inr (fw_inputs (ts_forward e)) \<and>
         offline_loss_args meth (ts_batch e) (model_call L (ts_weights e) (fw_inputs (ts_forward e))) =
           Inr (fw_loss_args (ts_forward e)) \<and>
         fw_loss (ts_forward e) = loss_fun L (fw_loss_args (ts_forward e)) \<and>
         fw_aux (ts_forward e) = model_losses L (ts_weights e) (fw_inputs (ts_forward e)) \<and>
         fw_w_decay (ts_forward e) = sum_list (fw_aux (ts_forward e)) \<and>
         (fw_aux (ts_forward e) = [] \<longrightarrow> fw_w_decay (ts_forward e) = 0) \<and>
         ts_gradients e = tape_gradient L (ts_objective e) (ts_weights e) \<and>
         ts_objective e (ts_weights e) =
           Inr (fw_loss (ts_forward e) + fw_w_decay (ts_forward e)) \<and>
         (\<forall>w'. ts_objective e w' =
            try_bind (offline_inputs meth (ts_batch e)) (\<lambda>inputs.
            try_bind (offline_loss_args meth (ts_batch e) (model_call L w' inputs)) (\<lambda>loss_args.
              Inr (loss_fun L loss_args + sum_list (model_losses L w' inputs)))))"
  proof
    fix e assume "e \<in> set (tape_steps fin')"
    with r have "step_ok L cv cm (forward_offline L meth) e" by simp
    then show "
         offline_inputs meth (ts_batch e) = Inr (fw_inputs (ts_forward e)) \<and>
         offline_loss_args meth (ts_batch e) (model_call L (ts_weights e) (fw_inputs (ts_forward e))) =
           Inr (fw_loss_args (ts_forward e)) \<and>
         fw_loss (ts_forward e) = loss_fun L (fw_loss_args (ts_forward e)) \<and>
         fw_aux (ts_forward e) = model_losses L (ts_weights e) (fw_inputs (ts_forward e)) \<and>
         fw_w_decay (ts_forward e) = sum_list (fw_aux (ts_forward e)) \<and>
         (fw_aux (ts_forward e) = [] \<longrightarrow> fw_w_decay (ts_forward e) = 0) \<and>
         ts_gradients e = tape_gradient L (ts_objective e) (ts_weights e) \<and>
         ts_objective e (ts_weights e) =
           Inr (fw_loss (ts_forward e) + fw_w_decay (ts_forward e)) \<and>
         (\<forall>w'. ts_objective e w' =
            try_bind (offline_inputs meth (ts_batch e)) (\<lambda>inputs.
            try_bind (offline_loss_args meth (ts_batch e) (model_call L w' inputs)) (\<lambda>loss_args.
              Inr (loss_fun L loss_args + sum_list (model_losses L w' inputs)))))"
      by (rule step_ok_penalty) (simp add: forward_offline_def Let_def)
  qed
qed

text \<open>
  Claim C7. In every iteration of both loops the gradients passed to \<open>apply_gradients\<close> are
  \<open>clip_gradients\<close> of the tape's gradients, with the configured value and method, when
  \<open>clip_value\<close> is not \<open>None\<close>, and the tape's gradients themselves when it is \<open>None\<close>; the
  weights after the run are the initial weights with exactly these gradients applied, in order.
\<close>

theorem gradients_handed_to_optimizer:
  "(train_online_run L w dg g iterations bs pb cv cm ns meth = Inr fin \<longrightarrow>
      length (tape_steps fin) = nat iterations \<and>
      weights fin = foldl (\<lambda>w e. apply_gradients L (ts_applied e) w) w (tape_steps fin) \<and>
      (\<forall>e \<in> set (tape_steps fin).
         ts_gradients e = tape_gradient L (ts_objective e) (ts_weights e) \<and>
         (cv = None \<longrightarrow> ts_applied e = ts_gradients e) \<and>
         (\<forall>c. cv = Some c \<longrightarrow> ts_applied e = clip_gradients L (ts_gradients e) c cm))) \<and>
   (train_offline_run L w dataset pb cv cm meth = Inr fin' \<longrightarrow>
      length (tape_steps fin') = length dataset \<and>
      weights fin' = foldl (\<lambda>w e. apply_gradients L (ts_applied e) w) w (tape_steps fin') \<and>
      (\<forall>e \<in> set (tape_steps fin').
         ts_gradients e = tape_gradient L (ts_objective e) (ts_weights e) \<and>
         (cv = None \<longrightarrow> ts_applied e = ts_gradients e) \<and>
         (\<forall>c. cv = Some c \<longrightarrow> ts_applied e = clip_gradients L (ts_gradients e) c cm)))"
proof (intro conjI impI ballI allI)
  assume run: "train_online_run L w dg g iterations bs pb cv cm ns meth = Inr fin"
  note r = train_online_run_ran [OF run]
  from r show "length (tape_steps fin) = nat iterations" by simp
  from r show "weights fin = foldl (\<lambda>w e. apply_gradients L (ts_applied e) w) w (tape_steps fin)"
    by simp
  fix e assume "e \<in> set (tape_steps fin)"
  with r have ok: "step_ok L cv cm (forward_online L meth) e" by simp
  from ok show "ts_gradients e = tape_gradient L (ts_objective e) (ts_weights e)"
    by (simp add: step_ok_def)
  show "ts_applied e = ts_gradients e" if "cv = None"
    using ok that by (simp add: step_ok_def)
  show "ts_applied e = clip_gradients L (ts_gradients e) c cm" if "cv = Some c" for c
    using ok that by (simp add: step_ok_def)
next
  assume run: "train_offline_run L w dataset pb cv cm meth = Inr fin'"
  note r = train_offline_run_ran [OF run]
  from r show "length (tape_steps fin') = length dataset" by (metis length_map)
  from r show "weights fin' = foldl (\<lambda>w e. apply_gradients L (ts_applied e) w) w (tape_steps fin')"
    by simp
  fix e assume "e \<in> set (tape_steps fin')"
  with r have ok: "step_ok L cv cm (forward_offline L meth) e" by simp
  from ok show "ts_gradients e = tape_gradient L (ts_objective e) (ts_weights e)"
    by (simp add: step_ok_def)
  show "ts_applied e = ts_gradients e" if "cv = None"
    using ok that by (simp add: step_ok_def)
  show "ts_applied e = clip_gradients L (ts_gradients e) c cm" if "cv = Some c" for c
    using ok that by (simp add: step_ok_def)
qed

lemma toy_online_run_smooth:
  "\<exists>s. train_online_run toy_learner 0 toy_data_gen 0 2 32 (Some no_reports) (Some 5)
          ''global_norm'' 2 ''flow'' = Inr s \<and>
       losses s ''loss'' = Some [1, 11 / 2] \<and>
       p_bar s = Some \<lparr>postfix = [Online_report 1 1 (Some 1) (1 / 2),
                                   Online_report 2 (11 / 2) (Some (13 / 4)) (1 / 2)], ticks = 2\<rparr>"
  by (simp add: toy_simps)

lemma np_mean_last:
  assumes "0 < k" and "k \<le> length xs"
  shows "np_mean (slice_from (- int k) xs) = Some (mean_of_last k xs)"
proof -
  have "slice_from (- int k) xs = drop (length xs - k) xs"
    using assms by (simp add: slice_from_def nat_diff_distrib')
  moreover have "length (drop (length xs - k) xs) = k"
    using assms by simp
  ultimately show ?thesis
    using assms(1) by (auto simp: np_mean_def mean_of_last_def)
qed

text \<open>
  Claim C1, as amended. With a progress reporter, the running loss reported at iteration
  \<open>it\<close> is the loss of that iteration while \<open>it < n_smooth\<close>, and the arithmetic mean of the
  last \<open>n_smooth\<close> recorded losses once \<open>it \<ge> n_smooth \<ge> 1\<close>.
\<close>

theorem running_loss_reported:
  assumes run: "train_online_run L w dg g iterations bs (Some p0) cv cm ns meth = Inr fin"
    and it: "1 \<le> it" "it \<le> iterations"
  shows "\<exists>p hist running d.
           p_bar fin = Some p \<and> losses fin ''loss'' = Some hist \<and>
           int (length hist) = iterations \<and>
           length (postfix p) = length (postfix p0) + length hist \<and>
           postfix p ! (length (postfix p0) + nat (it - 1)) =
             Online_report it (hist ! nat (it - 1)) running d \<and>
           (it < ns \<longrightarrow> running = Some (hist ! nat (it - 1))) \<and>
           (1 \<le> ns \<and> ns \<le> it \<longrightarrow>
              running = Some (mean_of_last (nat ns) (take (nat it) hist)))"
proof -
  define k where "k = nat (it - 1)"
  have k: "k < length [1..iterations]" "[1..iterations] ! k = it" "Suc k = nat it"
    using it by (simp_all add: k_def)
  from run [unfolded train_online_run_def]
  have "\<exists>p' new. p_bar fin = Some p' \<and> losses fin ''loss'' = Some ([] @ new) \<and>
           length new = length [1..iterations] \<and>
           length (postfix p') = length (postfix p0) + length [1..iterations] \<and>
           take (length (postfix p0)) (postfix p') = postfix p0 \<and>
           (\<forall>k < length [1..iterations]. \<exists>d.
              postfix p' ! (length (postfix p0) + k) =
                Online_report ([1..iterations] ! k) (new ! k)
                  (if [1..iterations] ! k < ns then Some (new ! k)
                   else np_mean (slice_from (- ns) ([] @ take (Suc k) new))) d)"
    by (rule online_loop_reports) (simp_all add: initial_losses_simps)
  then obtain p hist where
    p: "p_bar fin = Some p" and h: "losses fin ''loss'' = Some hist" and
    len: "length hist = length [1..iterations]" and
    lp: "length (postfix p) = length (postfix p0) + length [1..iterations]" and
    reps: "\<forall>k < length [1..iterations]. \<exists>d.
              postfix p ! (length (postfix p0) + k) =
                Online_report ([1..iterations] ! k) (hist ! k)
                  (if [1..iterations] ! k < ns then Some (hist ! k)
                   else np_mean (slice_from (- ns) (take (Suc k) hist))) d"
    unfolding append_Nil by blast
  define running where
    "running = (if it < ns then Some (hist ! k) else np_mean (slice_from (- ns) (take (nat it) hist)))"
  from reps k obtain d where
    rep: "postfix p ! (length (postfix p0) + k) = Online_report it (hist ! k) running d"
    unfolding running_def by force
  have mean: "running = Some (mean_of_last (nat ns) (take (nat it) hist))"
    if ns: "1 \<le> ns" "ns \<le> it"
  proof -
    have "length (take (nat it) hist) = nat it"
      using len it by simp
    with ns have "np_mean (slice_from (- int (nat ns)) (take (nat it) hist)) =
        Some (mean_of_last (nat ns) (take (nat it) hist))"
      by (intro np_mean_last) simp_all
    with ns show ?thesis by (simp add: running_def)
  qed
  have li: "int (length hist) = iterations"
    using len it by simp
  have lp': "length (postfix p) = length (postfix p0) + length hist"
    using lp len by simp
  have rep': "postfix p ! (length (postfix p0) + nat (it - 1)) =
      Online_report it (hist ! nat (it - 1)) running d"
    using rep by (simp add: k_def)
  have r1: "it < ns \<longrightarrow> running = Some (hist ! nat (it - 1))"
    by (simp add: running_def k_def)
  have r2: "1 \<le> ns \<and> ns \<le> it \<longrightarrow>
      running = Some (mean_of_last (nat ns) (take (nat it) hist))"
    using mean by simp
  from p h li lp' rep' r1 r2 show ?thesis by blast
qed

theorem running_loss_reported_witness:
  "\<exists>fin p hist d.
     train_online_run toy_learner 0 toy_data_gen 0 2 32 (Some no_reports) (Some 5)
       ''global_norm'' 2 ''flow'' = Inr fin \<and>
     p_bar fin = Some p \<and> losses fin ''loss'' = Some hist \<and>
     postfix p ! 1 = Online_report 2 (hist ! 1) (Some (mean_of_last 2 (take 2 hist))) d"
proof -
  from toy_online_run_smooth obtain fin where
    run: "train_online_run toy_learner 0 toy_data_gen 0 2 32 (Some no_reports) (Some 5)
       ''global_norm'' 2 ''flow'' = Inr fin"
    by blast
  from running_loss_reported [OF run, of 2]
  show ?thesis
    using run by (auto simp: no_reports_def)
qed

text \<open>
  The claim as written fails in the second iteration of a run with the default window of
  100: the reporter is handed the loss of that iteration, not the mean of the two recorded.
\<close>

theorem running_loss_counterexample:
  "reported (train_online_run toy_learner 0 toy_data_gen 0 2 32 (Some no_reports) (Some 5)
       ''global_norm'' 100 ''flow'') ! 1 = Online_report 2 (11 / 2) (Some (11 / 2)) (1 / 2) \<and>
   recorded (train_online_run toy_learner 0 toy_data_gen 0 2 32 (Some no_reports) (Some 5)
       ''global_norm'' 100 ''flow'') ''loss'' = [1, 11 / 2] \<and>
   mean_of_last (min 100 2) [1, 11 / 2] = 13 / 4 \<and>
   (11 / 2 :: real) \<noteq> 13 / 4"
proof -
  from toy_online_run obtain s where
    "train_online_run toy_learner 0 toy_data_gen 0 2 32 (Some no_reports) (Some 5)
          ''global_norm'' 100 ''flow'' = Inr s"
    "losses s ''loss'' = Some [1, 11 / 2]"
    "p_bar s = Some \<lparr>postfix = [Online_report 1 1 (Some 1) (1 / 2),
                                Online_report 2 (11 / 2) (Some (11 / 2)) (1 / 2)], ticks = 2\<rparr>"
    by blast
  then show ?thesis
    by (simp add: reported_def recorded_def mean_of_last_def)
qed

theorem penalty_and_objective_witness:
  "(\<exists>fin. train_online_run toy_learner 0 toy_data_gen 0 2 32 (Some no_reports) (Some 5)
             ''global_norm'' 100 ''flow'' = Inr fin \<and>
          map (\<lambda>e. fw_loss (ts_forward e)) (tape_steps fin) = [1, 11 / 2] \<and>
          map (\<lambda>e. fw_w_decay (ts_forward e)) (tape_steps fin) = [1 / 2, 1 / 2] \<and>
          list_all (\<lambda>e. fw_loss (ts_forward e) = loss_fun toy_learner (fw_loss_args (ts_forward e)) \<and>
                        fw_w_decay (ts_forward e) = sum_list (fw_aux (ts_forward e)) \<and>
                        ts_objective e (ts_weights e)
                          = Inr (fw_loss (ts_forward e) + fw_w_decay (ts_forward e)))
            (tape_steps fin)) \<and>
   (\<exists>fin'. train_offline_run toy_learner 0 toy_dataset (Some no_reports) None
             ''global_norm'' ''flow'' = Inr fin' \<and>
          map (\<lambda>e. fw_loss (ts_forward e)) (tape_steps fin') = [1, 9, 17] \<and>
          map (\<lambda>e. fw_w_decay (ts_forward e)) (tape_steps fin') = [1 / 2, 1 / 2, 1 / 2] \<and>
          list_all (\<lambda>e. fw_loss (ts_forward e) = loss_fun toy_learner (fw_loss_args (ts_forward e)) \<and>
                        fw_w_decay (ts_forward e) = sum_list (fw_aux (ts_forward e)) \<and>
                        ts_objective e (ts_weights e)
                          = Inr (fw_loss (ts_forward e) + fw_w_decay (ts_forward e)))
            (tape_steps fin'))"
proof -
  from toy_online_run obtain fin where
    run: "train_online_run toy_learner 0 toy_data_gen 0 2 32 (Some no_reports) (Some 5)
            ''global_norm'' 100 ''flow'' = Inr fin" and
    hist: "losses fin ''loss'' = Some [1, 11 / 2]" and
    reg: "losses fin ''regularization'' = Some [1 / 2, 1 / 2]"
    by blast
  from toy_offline_run obtain fin' where
    run': "train_offline_run toy_learner 0 toy_dataset (Some no_reports) None
            ''global_norm'' ''flow'' = Inr fin'" and
    hist': "losses fin' ''loss'' = Some [1, 9, 17]" and
    reg': "losses fin' ''regularization'' = Some [1 / 2, 1 / 2, 1 / 2]"
    by blast
  note a = penalty_and_objective [THEN conjunct1, THEN mp, OF run]
  note b = penalty_and_objective [THEN conjunct2, THEN mp, OF run']
  have lo: "map (\<lambda>e. fw_loss (ts_forward e)) (tape_steps fin) = [1, 11 / 2]"
    using a hist by simp
  have 1: "map (\<lambda>e. fw_w_decay (ts_forward e)) (tape_steps fin) = [1 / 2, 1 / 2]"
    using a reg by simp
  have lo': "map (\<lambda>e. fw_loss (ts_forward e)) (tape_steps fin') = [1, 9, 17]"
    using b hist' by simp
  have 2: "map (\<lambda>e. fw_w_decay (ts_forward e)) (tape_steps fin') = [1 / 2, 1 / 2, 1 / 2]"
    using b reg' by simp
  have 3: "list_all (\<lambda>e. fw_loss (ts_forward e) = loss_fun toy_learner (fw_loss_args (ts_forward e)) \<and>
                        fw_w_decay (ts_forward e) = sum_list (fw_aux (ts_forward e)) \<and>
                        ts_objective e (ts_weights e)
                          = Inr (fw_loss (ts_forward e) + fw_w_decay (ts_forward e)))
            (tape_steps fin)"
    unfolding list_all_iff using a by blast
  have 4: "list_all (\<lambda>e. fw_loss (ts_forward e) = loss_fun toy_learner (fw_loss_args (ts_forward e)) \<and>
                        fw_w_decay (ts_forward e) = sum_list (fw_aux (ts_forward e)) \<and>
                        ts_objective e (ts_weights e)
                          = Inr (fw_loss (ts_forward e) + fw_w_decay (ts_forward e)))
            (tape_steps fin')"
    unfolding list_all_iff using b by blast
  show ?thesis
  proof (rule conjI)
    show "\<exists>fin. train_online_run toy_learner 0 toy_data_gen 0 2 32 (Some no_reports) (Some 5)
             ''global_norm'' 100 ''flow'' = Inr fin \<and>
          map (\<lambda>e. fw_loss (ts_forward e)) (tape_steps fin) = [1, 11 / 2] \<and>
          map (\<lambda>e. fw_w_decay (ts_forward e)) (tape_steps fin) = [1 / 2, 1 / 2] \<and>
          list_all (\<lambda>e. fw_loss (ts_forward e) = loss_fun toy_learner (fw_loss_args (ts_forward e)) \<and>
                        fw_w_decay (ts_forward e) = sum_list (fw_aux (ts_forward e)) \<and>
                        ts_objective e (ts_weights e)
                          = Inr (fw_loss (ts_forward e) + fw_w_decay (ts_forward e)))
            (tape_steps fin)"
      by (rule exI [of _ fin]) (intro conjI run lo 1 3)
    show "\<exists>fin'. train_offline_run toy_learner 0 toy_dataset (Some no_reports) None
             ''global_norm'' ''flow'' = Inr fin' \<and>
          map (\<lambda>e. fw_loss (ts_forward e)) (tape_steps fin') = [1, 9, 17] \<and>
          map (\<lambda>e. fw_w_decay (ts_forward e)) (tape_steps fin') = [1 / 2, 1 / 2, 1 / 2] \<and>
          list_all (\<lambda>e. fw_loss (ts_forward e) = loss_fun toy_learner (fw_loss_args (ts_forward e)) \<and>
                        fw_w_decay (ts_forward e) = sum_list (fw_aux (ts_forward e)) \<and>
                        ts_objective e (ts_weights e)
                          = Inr (fw_loss (ts_forward e) + fw_w_decay (ts_forward e)))
            (tape_steps fin')"
      by (rule exI [of _ fin']) (intro conjI run' lo' 2 4)
  qed
qed

theorem gradients_handed_to_optimizer_witness:
  "(\<exists>fin. train_online_run toy_learner 0 toy_data_gen 0 2 32 (Some no_reports) (Some 5)
             ''global_norm'' 100 ''flow'' = Inr fin \<and>
          length (tape_steps fin) = 2 \<and>
          list_all (\<lambda>e. ts_applied e = clip_gradients toy_learner (ts_gradients e) 5 ''global_norm'')
            (tape_steps fin) \<and>
          map ts_gradients (tape_steps fin) = [[[3], [4]], [[3], [4]]] \<and>
          map ts_applied (tape_steps fin) = [[[3 / 2], [2]], [[3 / 2], [2]]]) \<and>
   (\<exists>fin'. train_offline_run toy_learner 0 toy_dataset (Some no_reports) None
             ''global_norm'' ''flow'' = Inr fin' \<and>
          length (tape_steps fin') = 3 \<and>
          list_all (\<lambda>e. ts_applied e = ts_gradients e) (tape_steps fin') \<and>
          map ts_applied (tape_steps fin') = [[[3], [4]], [[3], [4]], [[3], [4]]])"
proof -
  from toy_online_run obtain fin where
    run: "train_online_run toy_learner 0 toy_data_gen 0 2 32 (Some no_reports) (Some 5)
            ''global_norm'' 100 ''flow'' = Inr fin" and
    g: "map ts_gradients (tape_steps fin) = [[[3], [4]], [[3], [4]]]"
       "map ts_applied (tape_steps fin) = [[[3 / 2], [2]], [[3 / 2], [2]]]"
    by auto
  from toy_offline_run obtain fin' where
    run': "train_offline_run toy_learner 0 toy_dataset (Some no_reports) None
            ''global_norm'' ''flow'' = Inr fin'" and
    g': "map ts_applied (tape_steps fin') = [[[3], [4]], [[3], [4]], [[3], [4]]]"
    by auto
  note a = gradients_handed_to_optimizer [THEN conjunct1, THEN mp, OF run]
  note b = gradients_handed_to_optimizer [THEN conjunct2, THEN mp, OF run']
  have c: "list_all (\<lambda>e. ts_applied e = clip_gradients toy_learner (ts_gradients e) 5 ''global_norm'')
            (tape_steps fin)"
    unfolding list_all_iff using a by simp
  have d: "list_all (\<lambda>e. ts_applied e = ts_gradients e) (tape_steps fin')"
    unfolding list_all_iff using b by simp
  have l: "length (tape_steps fin) = 2" "length (tape_steps fin') = 3"
    using a b by (simp_all add: toy_dataset_def)
  show ?thesis
  proof (rule conjI)
    show "\<exists>fin. train_online_run toy_learner 0 toy_data_gen 0 2 32 (Some no_reports) (Some 5)
             ''global_norm'' 100 ''flow'' = Inr fin \<and>
          length (tape_steps fin) = 2 \<and>
          list_all (\<lambda>e. ts_applied e = clip_gradients toy_learner (ts_gradients e) 5 ''global_norm'')
            (tape_steps fin) \<and>
          map ts_gradients (tape_steps fin) = [[[3], [4]], [[3], [4]]] \<and>
          map ts_applied (tape_steps fin) = [[[3 / 2], [2]], [[3 / 2], [2]]]"
      by (rule exI [of _ fin]) (intro conjI run l c g)
    show "\<exists>fin'. train_offline_run toy_learner 0 toy_dataset (Some no_reports) None
             ''global_norm'' ''flow'' = Inr fin' \<and>
          length (tape_steps fin') = 3 \<and>
          list_all (\<lambda>e. ts_applied e = ts_gradients e) (tape_steps fin') \<and>
          map ts_applied (tape_steps fin') = [[[3], [4]], [[3], [4]], [[3], [4]]]"
      by (rule exI [of _ fin']) (intro conjI run' l d g')
  qed
qed

subsection \<open>Global-norm clipping\<close>

lemma sum_squares_scaled:
  "sum_list (map (\<lambda>x. x\<^sup>2) (map (\<lambda>x. x * k) xs)) = k\<^sup>2 * sum_list (map (\<lambda>x. x\<^sup>2) xs)"
  for k :: real
  by (induction xs) (simp_all add: power_mult_distrib algebra_simps)

lemma sum_squares_concat_scaled:
  "sum_list (map (\<lambda>x. x\<^sup>2) (concat (map (map (\<lambda>x. x * k)) gs))) =
     k\<^sup>2 * sum_list (map (\<lambda>x. x\<^sup>2) (concat gs))"
  for k :: real
proof (induction gs)
  case Nil
  show ?case by simp
next
  case (Cons g gs)
  have "sum_list (map (\<lambda>x. x\<^sup>2) (map (\<lambda>x. x * k) g)) = k\<^sup>2 * sum_list (map (\<lambda>x. x\<^sup>2) g)"
    by (rule sum_squares_scaled)
  with Cons show ?case
    by (simp add: algebra_simps)
qed

lemma global_norm_scaled:
  "global_norm (map (map (\<lambda>x. x * k)) gs) = \<bar>k\<bar> * global_norm gs"
  by (simp add: global_norm_def sum_squares_concat_scaled real_sqrt_mult)

lemma global_norm_3_4: "global_norm [[3], [4]] = 5"
  by (simp add: global_norm_def real_sqrt_unique)

text \<open>
  Claim C6. Global-norm clipping with a threshold \<open>clip_value\<close> (a norm, so not negative):
  gradients whose global norm exceeds it come back with global norm \<open>clip_value\<close>, and
  gradients whose global norm is below it come back unchanged.
\<close>

theorem global_norm_clipping:
  "(0 \<le> clip_value \<and> clip_value < global_norm gs \<longrightarrow>
      global_norm (clip_by_global_norm gs clip_value) = clip_value) \<and>
   (global_norm gs < clip_value \<longrightarrow> clip_by_global_norm gs clip_value = gs)"
proof (intro conjI impI)
  assume a: "0 \<le> clip_value \<and> clip_value < global_norm gs"
  then have pos: "0 < global_norm gs" by simp
  have "clip_by_global_norm gs clip_value =
      map (map (\<lambda>x. x * (clip_value / global_norm gs))) gs"
    using a by (simp add: clip_by_global_norm_def)
  then have "global_norm (clip_by_global_norm gs clip_value) =
      \<bar>clip_value / global_norm gs\<bar> * global_norm gs"
    by (simp only: global_norm_scaled)
  also have "\<dots> = clip_value"
    using a pos by simp
  finally show "global_norm (clip_by_global_norm gs clip_value) = clip_value" .
next
  assume "global_norm gs < clip_value"
  then show "clip_by_global_norm gs clip_value = gs"
    by (simp add: clip_by_global_norm_def)
qed

theorem global_norm_clipping_witness:
  "(0::real) \<le> 1 \<and> 1 < global_norm [[3], [4]] \<and>
   global_norm (clip_by_global_norm [[3], [4]] 1) = 1 \<and>
   clip_by_global_norm [[3], [4]] 1 = [[3 / 5], [4 / 5]] \<and>
   global_norm [[3], [4]] < 10 \<and>
   clip_by_global_norm [[3], [4]] 10 = [[3], [4]]"
  using global_norm_clipping [of 1 "[[3], [4]]"] global_norm_clipping [of 10 "[[3], [4]]"]
  by (simp add: global_norm_3_4 clip_by_global_norm_def)

section \<open>Properties of the diagnostics\<close>

subsection \<open>Rank statistics and the band of plot\_sbc\<close>

lemma count_below:
  "sum_list (map (\<lambda>k. if Q k then 1 else 0) [0..<m]) = int (card {k. k < m \<and> Q k})"
proof (induction m)
  case 0
  show ?case by simp
next
  case (Suc m)
  have fin: "finite {k. k < m \<and> Q k}" by simp
  have split: "{k. k < Suc m \<and> Q k} = (if Q m then insert m {k. k < m \<and> Q k} else {k. k < m \<and> Q k})"
    by (auto simp: less_Suc_eq)
  show ?case
    using Suc fin by (simp add: split)
qed

lemma card_below_le: "card {k. k < m \<and> Q k} \<le> m"
proof -
  have "card {k. k < m \<and> Q k} \<le> card {..<m}"
    by (rule card_mono) auto
  then show ?thesis by simp
qed

lemma valid2_length: "valid2 a \<Longrightarrow> shape2 a = (n, p) \<Longrightarrow> length (items2 a) = n"
  by (simp add: valid2_def)

lemma np_less_newaxis:
  assumes post: "shape3 post = (N, M, P)" and prior: "shape2 prior = (N, P)"
  shows "np_less post (newaxis1 prior) =
     Inr \<lparr>shape3 = (N, M, P),
          items3 = map (\<lambda>i. map (\<lambda>k. map (\<lambda>j. item3 post i k j < item3 (newaxis1 prior) i k j)
                                [0..<P]) [0..<M]) [0..<N]\<rparr>"
  using assms by (simp add: np_less_def newaxis1_def broadcast_dim_def)

lemma item3_post:
  assumes "shape3 post = (N, M, P)" "i < N" "k < M" "j < P"
  shows "item3 post i k j = items3 post ! i ! k ! j"
  using assms by (auto simp: item3_def)

lemma item3_prior:
  assumes "shape2 prior = (N, P)" "valid2 prior" "i < N" "j < P"
  shows "item3 (newaxis1 prior) i k j = items2 prior ! i ! j"
  using assms valid2_length [of prior N P]
  by (auto simp: item3_def newaxis1_def)

text \<open>
  Claim C3. For arrays of the documented shapes, the rank statistic that \<open>plot_sbc\<close> computes
  for dataset \<open>i\<close> and parameter \<open>j\<close> is the number of posterior draws strictly below the true
  value, so it lies between 0 and the number of draws.
\<close>

theorem rank_statistic:
  assumes post: "shape3 post_samples = (N, M, P)"
    and prior: "shape2 prior_samples = (N, P)" "valid2 prior_samples"
  shows "\<exists>ranks. sbc_ranks post_samples prior_samples = Inr ranks \<and> shape2 ranks = (N, P) \<and>
           valid2 ranks \<and>
           (\<forall>i < N. \<forall>j < P.
              items2 ranks ! i ! j =
                int (card {k. k < M \<and> items3 post_samples ! i ! k ! j < items2 prior_samples ! i ! j}) \<and>
              0 \<le> items2 ranks ! i ! j \<and> items2 ranks ! i ! j \<le> int M)"
proof -
  define below where
    "below = \<lparr>shape3 = (N, M, P),
          items3 = map (\<lambda>i. map (\<lambda>k. map (\<lambda>j. item3 post_samples i k j
                                                 < item3 (newaxis1 prior_samples) i k j)
                                [0..<P]) [0..<M]) [0..<N]\<rparr>"
  define ranks where "ranks = sum_axis1 below"
  have run: "sbc_ranks post_samples prior_samples = Inr ranks"
    by (simp add: sbc_ranks_def np_less_newaxis [OF post prior(1)] ranks_def below_def)
  have shape: "shape2 ranks = (N, P)"
    by (simp add: ranks_def sum_axis1_def below_def)
  have valid: "valid2 ranks"
    by (simp add: ranks_def sum_axis1_def below_def valid2_def list_all_length)
  have entry: "items2 ranks ! i ! j =
      int (card {k. k < M \<and> items3 post_samples ! i ! k ! j < items2 prior_samples ! i ! j})"
    if ij: "i < N" "j < P" for i j
  proof -
    have "items2 ranks ! i ! j =
        sum_list (map (\<lambda>k. if items3 below ! i ! k ! j then 1 else 0) [0..<M])"
      using ij by (simp add: ranks_def sum_axis1_def below_def)
    also have "map (\<lambda>k. if items3 below ! i ! k ! j then 1 else (0::int)) [0..<M] =
        map (\<lambda>k. if items3 post_samples ! i ! k ! j < items2 prior_samples ! i ! j then 1 else 0)
          [0..<M]"
    proof (rule map_cong [OF refl])
      fix k assume "k \<in> set [0..<M]"
      then have k: "k < M" by simp
      have "items3 below ! i ! k ! j =
          (item3 post_samples i k j < item3 (newaxis1 prior_samples) i k j)"
        using ij k by (simp add: below_def)
      also have "\<dots> = (items3 post_samples ! i ! k ! j < items2 prior_samples ! i ! j)"
        using item3_post [OF post ij(1) k ij(2)] item3_prior [OF prior ij] by simp
      finally show "(if items3 below ! i ! k ! j then 1 else (0::int)) =
          (if items3 post_samples ! i ! k ! j < items2 prior_samples ! i ! j then 1 else 0)"
        by simp
    qed
    also have "sum_list \<dots> =
        int (card {k. k < M \<and> items3 post_samples ! i ! k ! j < items2 prior_samples ! i ! j})"
      by (rule count_below)
    finally show ?thesis .
  qed
  have bounds: "0 \<le> items2 ranks ! i ! j \<and> items2 ranks ! i ! j \<le> int M"
    if ij: "i < N" "j < P" for i j
    using entry [OF ij] card_below_le [of M "\<lambda>k. items3 post_samples ! i ! k ! j < items2 prior_samples ! i ! j"]
    by simp
  from run shape valid entry bounds show ?thesis by blast
qed

lemma toy_ranks: "sbc_ranks toy_post toy_prior = Inr \<lparr>shape2 = (2, 2), items2 = [[2, 3], [1, 0]]\<rparr>"
  by (simp add: sbc_ranks_def np_less_def newaxis1_def broadcast_dim_def sum_axis1_def item3_def
      toy_post_def toy_prior_def upt_rec)

theorem rank_statistic_witness:
  "shape3 toy_post = (2, 3, 2) \<and> shape2 toy_prior = (2, 2) \<and> valid2 toy_prior \<and>
   sbc_ranks toy_post toy_prior = Inr \<lparr>shape2 = (2, 2), items2 = [[2, 3], [1, 0]]\<rparr> \<and>
   int (card {k. k < 3 \<and> items3 toy_post ! 0 ! k ! 0 < items2 toy_prior ! 0 ! 0}) = 2"
proof -
  have a: "shape3 toy_post = (2, 3, 2)" and b: "shape2 toy_prior = (2, 2)" and c: "valid2 toy_prior"
    by (simp_all add: toy_post_def toy_prior_def valid2_def)
  from rank_statistic [OF a b c] toy_ranks
  have "int (card {k. k < 3 \<and> items3 toy_post ! 0 ! k ! 0 < items2 toy_prior ! 0 ! 0}) = 2"
    by force
  with a b c toy_ranks show ?thesis by simp
qed

text \<open>
  Claim C4 on the code. The success probability handed to \<open>binom.interval\<close> is
  \<open>1 / (num_bins + 1)\<close>: with the default of 10 bins it is \<open>1 / 11\<close>, not the \<open>1 / 10\<close> that a
  rank has of landing in one of the 10 bins of the histogram drawn on the same Axes.
\<close>

theorem sbc_band_probability:
  "sbc_endpoints binom_interval level prior_samples 10 =
     Inr (binom_interval level (fst (shape2 prior_samples)) (1 / 11)) \<and>
   (1 / 11 :: real) \<noteq> 1 / 10"
  by (simp add: sbc_endpoints_def)

subsection \<open>Point estimates of plot\_recovery\<close>

lemma fibre_mean_single: "fibre_mean [x] = x"
  by (simp add: fibre_mean_def)

text \<open>
  Claim C8. With one draw per dataset and an aggregator that is the identity on a single
  draw (the mean of one draw is one), the point estimate of \<open>plot_recovery\<close> for dataset \<open>i\<close>
  and parameter \<open>j\<close> is that draw.
\<close>

theorem single_draw_estimate:
  assumes "shape3 post_samples = (N, 1, P)" and "\<And>x. f [x] = x"
  shows "shape2 (point_estimates (along_axis1 f) post_samples) = (N, P) \<and>
         valid2 (point_estimates (along_axis1 f) post_samples) \<and>
         (\<forall>i < N. \<forall>j < P.
            items2 (point_estimates (along_axis1 f) post_samples) ! i ! j =
              items3 post_samples ! i ! 0 ! j)"
  using assms
  by (simp add: point_estimates_def along_axis1_def valid2_def list_all_length)

theorem single_draw_estimate_witness:
  "shape3 single_draws = (2, 1, 3) \<and> fibre_mean [7] = 7 \<and>
   point_estimates (along_axis1 fibre_mean) single_draws =
     \<lparr>shape2 = (2, 3), items2 = [[1, 2, 3], [4, 5, 6]]\<rparr> \<and>
   items2 (point_estimates (along_axis1 fibre_mean) single_draws) ! 1 ! 2 =
     items3 single_draws ! 1 ! 0 ! 2"
proof -
  have s: "shape3 single_draws = (2, 1, 3)"
    by (simp add: single_draws_def)
  from single_draw_estimate [of single_draws 2 3 fibre_mean, OF s fibre_mean_single]
  have "items2 (point_estimates (along_axis1 fibre_mean) single_draws) ! 1 ! 2 =
     items3 single_draws ! 1 ! 0 ! 2"
    by simp
  moreover have "point_estimates (along_axis1 fibre_mean) single_draws =
     \<lparr>shape2 = (2, 3), items2 = [[1, 2, 3], [4, 5, 6]]\<rparr>"
    by (simp add: point_estimates_def along_axis1_def single_draws_def fibre_mean_def upt_rec)
  ultimately show ?thesis
    using s by (simp add: fibre_mean_single)
qed

subsection \<open>The title of plot\_calibration\_curves\<close>

lemma subplot_grid_Inr:
  assumes "subplot_grid n = Inr (r, c)"
  shows "0 < n \<and> 0 < r \<and> 0 < c \<and> (r = 1 \<longleftrightarrow> n \<le> 6) \<and> (r = 1 \<longrightarrow> c = n) \<and> n \<le> r * c"
proof -
  from assms have r: "r = (n + 5) div 6" "r \<noteq> 0" and c: "c = (n + r - 1) div r"
    by (auto simp: subplot_grid_def Let_def split: if_splits)
  from r have n: "0 < n" by (cases n) auto
  from r have r1: "r = 1 \<longleftrightarrow> n \<le> 6" by presburger
  from r c n have c0: "0 < c"
    by (simp add: div_greater_zero_iff)
  have "n + r - 1 < r * ((n + r - 1) div r) + r"
    using r(2) by (metis add.commute bot_nat_0.not_eq_extremum dividend_less_times_div mult.commute)
  with c have "n \<le> r * c" by simp
  moreover have "r = 1 \<longrightarrow> c = n"
    using c n by auto
  ultimately show ?thesis
    using n r(2) r1 c0 by simp
qed

lemma calibration_first_cell:
  assumes "cal_errs \<noteq> []" "cal_probs \<noteq> []" "ax = Array1 n \<or> ax = Flat n" "0 < n"
  shows "calibration_cell ax cal_errs cal_probs names 0 = Inl AttributeError"
  using assms by (auto simp: calibration_cell_def index_def)

text \<open>
  Claim C9. With two or more models, and a calibration-error utility that returns an entry
  per model, \<open>plot_calibration_curves\<close> raises \<open>AttributeError\<close> in the first pass of its loop
  and so never returns a figure: \<open>set_title\<close> is called on the collection of Axes.
\<close>

theorem calibration_title_error:
  assumes models: "2 \<le> snd (shape2 m_pred)"
    and util: "expected_calibration_error m_true m_pred n_bins = (cal_errs, cal_probs)"
    and entries: "cal_errs \<noteq> []" "cal_probs \<noteq> []"
  shows "plot_calibration_curves expected_calibration_error m_true m_pred model_names n_bins =
           Inl AttributeError"
proof -
  define n where "n = snd (shape2 m_pred)"
  define names where
    "names = (case model_names of None \<Rightarrow> default_names ''M_'' n | Some ns \<Rightarrow> ns)"
  have "2 \<le> n"
    using models by (simp add: n_def)
  then have "(n + 5) div 6 \<noteq> 0"
    by presburger
  then obtain r c where grid: "subplot_grid n = Inr (r, c)"
    by (simp add: subplot_grid_def Let_def)
  note g = subplot_grid_Inr [OF grid]
  have upt: "[0..<n] = 0 # [1..<n]"
    using models by (simp add: n_def upt_rec)
  have "\<exists>ax k. (if r > 1 then try_bind (subplots r c) flat else subplots r c) = Inr ax \<and>
      (ax = Array1 k \<or> ax = Flat k) \<and> 0 < k"
  proof (cases "r = 1")
    case True
    with g models have "subplots r c = Inr (Array1 n)"
      by (simp add: subplots_def n_def)
    with True g show ?thesis by simp
  next
    case False
    with g have r: "1 < r" by simp
    from g r have "try_bind (subplots r c) flat = Inr (Flat (r * c))"
      by (auto simp: subplots_def)
    with r g show ?thesis by simp
  qed
  then obtain ax k where
    ax: "(if r > 1 then try_bind (subplots r c) flat else subplots r c) = Inr ax" and
    k: "ax = Array1 k \<or> ax = Flat k" "0 < k"
    by blast
  have cell: "calibration_cell ax cal_errs cal_probs names 0 = Inl AttributeError"
    using entries k by (rule calibration_first_cell)
  have "plot_calibration_curves expected_calibration_error m_true m_pred model_names n_bins =
      try_bind (if r > 1 then try_bind (subplots r c) flat else subplots r c)
        (\<lambda>ax. calibration_loop (calibration_cell ax cal_errs cal_probs names) [0..<n] [])"
    by (cases "subplots r c")
       (simp_all add: plot_calibration_curves_def Let_def n_def [symmetric] names_def [symmetric]
          grid util)
  also have "\<dots> = Inl AttributeError"
    by (simp only: ax) (simp add: upt cell)
  finally show ?thesis .
qed

theorem calibration_title_error_witness:
  "2 \<le> snd (shape2 two_model_predictions) \<and>
   toy_calibration () two_model_predictions 10 =
     ([1 / 10, 1 / 5], [([0, 1], [0, 1]), ([0, 1], [1 / 2, 1 / 2])]) \<and>
   plot_calibration_curves toy_calibration () two_model_predictions None 10 = Inl AttributeError"
proof -
  have a: "2 \<le> snd (shape2 two_model_predictions)"
    by (simp add: two_model_predictions_def)
  have b: "toy_calibration () two_model_predictions 10 =
     ([1 / 10, 1 / 5], [([0, 1], [0, 1]), ([0, 1], [1 / 2, 1 / 2])])"
    by (simp add: toy_calibration_def)
  from calibration_title_error [where expected_calibration_error = toy_calibration
      and m_true = "()" and m_pred = two_model_predictions and n_bins = 10
      and model_names = None, OF a b] a b
  show ?thesis
    by simp
qed

subsection \<open>The grid of plot\_recovery\<close>

lemma recovery_loop_raises:
  "i \<in> set xs \<Longrightarrow> cell i = Inl e \<Longrightarrow> \<exists>e'. recovery_loop cell xs f = Inl e'"
proof (induction xs arbitrary: f)
  case Nil
  then show ?case by simp
next
  case (Cons x xs)
  show ?case
  proof (cases "cell x")
    case (Inl e')
    then show ?thesis by simp
  next
    case (Inr p)
    with Cons.prems have "i \<in> set xs" by auto
    from Cons.IH [OF this Cons.prems(2)] Inr show ?thesis by simp
  qed
qed

lemma recovery_loop_index_error:
  assumes "\<And>i. i \<in> set xs \<Longrightarrow> (\<exists>p. cell i = Inr p) \<or> cell i = Inl IndexError"
    and "k \<in> set xs" and "cell k = Inl IndexError"
  shows "recovery_loop cell xs f = Inl IndexError"
  using assms
proof (induction xs arbitrary: f)
  case Nil
  then show ?case by simp
next
  case (Cons x xs)
  from Cons.prems(1) [of x] consider p where "cell x = Inr p" | "cell x = Inl IndexError"
    by auto
  then show ?case
  proof cases
    case 1
    with Cons.prems(2,3) have "k \<in> set xs" by auto
    then have "recovery_loop cell xs (f @ [p]) = Inl IndexError"
      using Cons.prems(1,3) by (intro Cons.IH) auto
    with 1 show ?thesis by simp
  next
    case 2
    then show ?thesis by simp
  qed
qed

lemma recovery_cell_past_last:
  "snd (shape2 prior_samples) \<le> i \<Longrightarrow>
     recovery_cell lib prior_samples est u with_u names add_corr add_r2 i = Inl IndexError"
  by (simp add: recovery_cell_def column_def)

lemma column_cases: "(\<exists>xs. column a i = Inr xs) \<or> column a i = Inl IndexError"
  by (simp add: column_def)

lemma column_not_empty:
  "valid2 a \<Longrightarrow> 0 < fst (shape2 a) \<Longrightarrow> column a i = Inr xs \<Longrightarrow> xs \<noteq> []"
  by (auto simp: column_def valid2_def split: if_splits)

lemma index_cases: "(\<exists>x. index xs i = Inr x) \<or> index xs i = Inl IndexError"
  by (simp add: index_def)

lemma recovery_cell_drawn_or_index_error:
  assumes prior: "valid2 prior_samples" "0 < fst (shape2 prior_samples)"
    and est: "valid2 est" "0 < fst (shape2 est)"
    and lib: "\<And>xs ys bars. column prior_samples i = Inr xs \<Longrightarrow> column est i = Inr ys \<Longrightarrow>
                column u i = Inr bars \<Longrightarrow> library_returns lib add_corr add_r2 xs ys bars"
  shows "(\<exists>p. recovery_cell lib prior_samples est u True names add_corr add_r2 i = Inr p) \<or>
         recovery_cell lib prior_samples est u True names add_corr add_r2 i = Inl IndexError"
proof -
  consider xs ys bars where "column prior_samples i = Inr xs" "column est i = Inr ys"
      "column u i = Inr bars"
    | "column prior_samples i = Inl IndexError"
    | xs where "column prior_samples i = Inr xs" "column est i = Inl IndexError"
    | xs ys where "column prior_samples i = Inr xs" "column est i = Inr ys"
        "column u i = Inl IndexError"
    using column_cases [of prior_samples i] column_cases [of est i] column_cases [of u i]
    by blast
  then show ?thesis
  proof cases
    case 1
    from column_not_empty [OF prior 1(1)] column_not_empty [OF est 1(2)]
    have ne: "xs \<noteq> []" "ys \<noteq> []" .
    from lib [OF 1] have
      d: "draw_points lib xs ys (Some bars) = Inr ()" and
      l: "set_limits lib (cell_limits lib (array_min lib xs) (array_min lib ys)
            (array_max lib xs) (array_max lib ys)) = Inr ()" and
      t: "\<And>name. title_and_prettify lib name = Inr ()"
      by (simp_all add: library_returns_def)
    from lib [OF 1] have
      "\<exists>score. (if add_r2 then try_bind (r2_score lib xs ys) (\<lambda>v. Inr (Some v)) else Inr None)
         = Inr score"
      "\<exists>r. (if add_corr then try_bind (corrcoef lib xs ys) (\<lambda>v. Inr (Some v)) else Inr None)
         = Inr r"
      by (auto simp: library_returns_def)
    then obtain score r where
      s: "(if add_r2 then try_bind (r2_score lib xs ys) (\<lambda>v. Inr (Some v)) else Inr None) = Inr score"
      and c: "(if add_corr then try_bind (corrcoef lib xs ys) (\<lambda>v. Inr (Some v)) else Inr None) = Inr r"
      by blast
    from index_cases [of names i] show ?thesis
    proof
      assume "\<exists>name. index names i = Inr name"
      then obtain name where "index names i = Inr name" ..
      then show ?thesis
        by (simp add: recovery_cell_def 1 d ne amin_def amax_def l s c t)
    next
      assume "index names i = Inl IndexError"
      then show ?thesis
        by (simp add: recovery_cell_def 1 d ne amin_def amax_def l s c)
    qed
  next
    case 2
    then show ?thesis by (simp add: recovery_cell_def)
  next
    case 3
    then show ?thesis by (simp add: recovery_cell_def)
  next
    case 4
    then show ?thesis by (simp add: recovery_cell_def)
  qed
qed

text \<open>
  Claim C10, as amended. When the subplot grid has more cells than there are parameters,
  \<open>plot_recovery\<close> never returns a figure: it raises. When, moreover, both aggregators are
  callable and return arrays, \<open>prior_samples\<close> and the point estimates have at least one row,
  and the library calls of the cells of the parameters return, the exception is an
  \<open>IndexError\<close>: the loop indexes the parameter axis or \<open>param_names\<close> out of bounds, in the
  first cell past the last parameter at the latest.
\<close>

theorem recovery_grid_overflow:
  assumes grid: "subplot_grid (snd (shape2 prior_samples)) = Inr (n_row, n_col)"
    and more: "snd (shape2 prior_samples) < n_row * n_col"
  shows "(\<exists>e. plot_recovery lib post_samples prior_samples point_agg
                uncertainty_agg param_names add_corr add_r2 = Inl e) \<and>
         (\<forall>est agg u.
            point_agg post_samples = Inr est \<and>
            uncertainty_agg = Some agg \<and> agg post_samples = Inr u \<and>
            valid2 prior_samples \<and> 0 < fst (shape2 prior_samples) \<and>
            valid2 est \<and> 0 < fst (shape2 est) \<and>
            (\<forall>i xs ys bars.
               i < snd (shape2 prior_samples) \<and> column prior_samples i = Inr xs \<and>
               column est i = Inr ys \<and> column u i = Inr bars \<longrightarrow>
               library_returns lib add_corr add_r2 xs ys bars) \<longrightarrow>
            plot_recovery lib post_samples prior_samples point_agg
              uncertainty_agg param_names add_corr add_r2 = Inl IndexError)"
proof -
  define P where "P = snd (shape2 prior_samples)"
  define names where
    "names = (case param_names of None \<Rightarrow> default_names ''p_'' P | Some ns \<Rightarrow> ns)"
  define cell where
    "cell est u = recovery_cell lib prior_samples est u (uncertainty_agg \<noteq> None) names
                    add_corr add_r2" for est u
  note g = subplot_grid_Inr [OF grid]
  have two: "2 \<le> n_row * n_col"
    using g more by simp
  have flat: "try_bind (subplots n_row n_col) flat = Inr (Flat (n_row * n_col))"
    using g two by (auto simp: subplots_def)
  then obtain axarr where
    ax: "subplots n_row n_col = Inr axarr" "flat axarr = Inr (Flat (n_row * n_col))"
    by (auto simp: try_bind_eq_Inr)
  have unfold: "plot_recovery lib post_samples prior_samples point_agg
      uncertainty_agg param_names add_corr add_r2 =
      try_bind (point_agg post_samples) (\<lambda>est.
      try_bind (uncertainties uncertainty_agg post_samples) (\<lambda>u.
        recovery_loop (cell est u) [0..<n_row * n_col] []))"
    using grid ax
    by (simp add: plot_recovery_def Let_def P_def [symmetric] names_def [symmetric]
        cell_def point_estimates_def)
  have past: "cell est u P = Inl IndexError" for est u
    unfolding cell_def by (rule recovery_cell_past_last) (simp add: P_def)
  have P_in: "P \<in> set [0..<n_row * n_col]"
    using more by (simp add: P_def)
  have never: "\<exists>e. plot_recovery lib post_samples prior_samples point_agg
                uncertainty_agg param_names add_corr add_r2 = Inl e"
  proof (cases "point_agg post_samples")
    case (Inl e)
    then show ?thesis by (simp add: unfold)
  next
    case est: (Inr est)
    show ?thesis
    proof (cases "uncertainties uncertainty_agg post_samples")
      case (Inl e)
      with est show ?thesis by (simp add: unfold)
    next
      case (Inr u)
      from recovery_loop_raises [where cell = "cell est u" and f = "[]", OF P_in past [of est u]]
        est Inr
      show ?thesis by (simp add: unfold)
    qed
  qed
  have index_error: "plot_recovery lib post_samples prior_samples point_agg
            uncertainty_agg param_names add_corr add_r2 = Inl IndexError"
    if est: "point_agg post_samples = Inr est"
      and agg: "uncertainty_agg = Some agg" "agg post_samples = Inr u"
      and prior: "valid2 prior_samples" "0 < fst (shape2 prior_samples)"
      and rows: "valid2 est" "0 < fst (shape2 est)"
      and lib: "\<forall>i xs ys bars.
               i < snd (shape2 prior_samples) \<and> column prior_samples i = Inr xs \<and>
               column est i = Inr ys \<and> column u i = Inr bars \<longrightarrow>
               library_returns lib add_corr add_r2 xs ys bars"
    for est agg u
  proof -
    have u: "uncertainties uncertainty_agg post_samples = Inr u"
      by (simp add: uncertainties_def agg)
    have c: "cell est u = recovery_cell lib prior_samples est u True names add_corr add_r2"
      by (simp add: cell_def agg)
    have each: "(\<exists>p. cell est u i = Inr p) \<or> cell est u i = Inl IndexError"
      if "i \<in> set [0..<n_row * n_col]" for i
    proof (cases "i < P")
      case True
      show ?thesis
        unfolding c using prior rows
      proof (rule recovery_cell_drawn_or_index_error)
        fix xs ys bars
        assume "column prior_samples i = Inr xs" "column est i = Inr ys" "column u i = Inr bars"
        with lib True show "library_returns lib add_corr add_r2 xs ys bars"
          by (simp add: P_def)
      qed
    next
      case False
      then have "cell est u i = Inl IndexError"
        unfolding cell_def by (intro recovery_cell_past_last) (simp add: P_def)
      then show ?thesis ..
    qed
    have "recovery_loop (cell est u) [0..<n_row * n_col] [] = Inl IndexError"
      using each P_in past [of est u] by (rule recovery_loop_index_error)
    then show ?thesis
      by (simp add: unfold est u)
  qed
  from never index_error show ?thesis by blast
qed

lemma seven_grid: "subplot_grid (snd (shape2 seven_prior)) = Inr (2, 4)"
  by (simp add: subplot_grid_def seven_prior_def)

lemma quiet_library_returns: "library_returns quiet_library add_corr add_r2 xs ys bars"
  by (simp add: library_returns_def quiet_library_def)

theorem recovery_grid_overflow_witness:
  "subplot_grid (snd (shape2 seven_prior)) = Inr (2, 4) \<and>
   snd (shape2 seven_prior) < 2 * 4 \<and>
   plot_recovery quiet_library seven_post seven_prior mean_agg (Some spread_agg) None True True
     = Inl IndexError"
proof -
  have more: "snd (shape2 seven_prior) < 2 * 4"
    by (simp add: seven_prior_def)
  have "plot_recovery quiet_library seven_post seven_prior mean_agg (Some spread_agg) None True True
     = Inl IndexError"
    by (rule recovery_grid_overflow [OF seven_grid more, THEN conjunct2, rule_format,
          where est = "along_axis1 fibre_mean seven_post" and agg = spread_agg
            and u = "along_axis1 zero_spread seven_post"])
       (simp add: mean_agg_def spread_agg_def quiet_library_returns
          seven_prior_def seven_post_def along_axis1_def valid2_def upt_rec)
  with seven_grid more show ?thesis by simp
qed

text \<open>
  The claim as written names the exception. With seven parameters (a 2-by-4 grid), one
  dataset and no posterior draw, shapes \<open>(1, 0, 7)\<close> and \<open>(1, 7)\<close>, the default aggregators
  return arrays of \<open>nan\<close> and the first cell already raises \<open>ValueError\<close>, from \<open>r2_score\<close> in
  line 103.
\<close>

theorem recovery_grid_overflow_counterexample:
  "subplot_grid (snd (shape2 undrawn_prior)) = Inr (2, 4) \<and>
   snd (shape2 undrawn_prior) < 2 * 4 \<and>
   plot_recovery nan_library undrawn_post undrawn_prior nan_mean_agg (Some nan_std_agg)
     None True True = Inl ValueError"
  by (simp add: plot_recovery_def uncertainties_def subplot_grid_def subplots_def
      undrawn_prior_def undrawn_post_def point_estimates_def nan_mean_agg_def nan_std_agg_def
      nan_library_def nan_mean_def nan_std_def python_min_def python_max_def nan_pad_def
      cell_limits_def along_axis1_def recovery_cell_def column_def amin_def amax_def upt_rec)

text \<open>
  So does a call with no dataset, shapes \<open>(0, 1, 7)\<close> and \<open>(0, 7)\<close>: the minimum of an empty
  column in line 91 raises \<open>ValueError\<close>.
\<close>

lemma recovery_no_dataset:
  "plot_recovery quiet_library no_post no_prior mean_agg (Some spread_agg) None True True
     = Inl ValueError"
  by (simp add: plot_recovery_def uncertainties_def subplot_grid_def subplots_def
      no_prior_def no_post_def point_estimates_def mean_agg_def spread_agg_def quiet_library_def
      along_axis1_def recovery_cell_def column_def amin_def upt_rec)

subsection \<open>Figures that are returned\<close>

text \<open>
  With two parameters both functions return a figure of two panels; with one parameter
  \<open>plt.subplots\<close> returns a single Axes object and neither does.
\<close>

lemma default_names_2: "default_names ''p_'' 2 = [''p_1'', ''p_2'']"
  by (simp add: default_names_def upt_rec)

lemma plot_sbc_example:
  "plot_sbc binom_interval toy_post toy_prior None 10 (95 / 100) =
     Inr [\<lparr>band = binom_interval (95 / 100) 2 (1 / 11),
           midline = (fst (binom_interval (95 / 100) 2 (1 / 11))
                      + snd (binom_interval (95 / 100) 2 (1 / 11))) / 2,
           ranks_shown = [2, 1], bins = 10, sbc_title = ''p_1''\<rparr>,
          \<lparr>band = binom_interval (95 / 100) 2 (1 / 11),
           midline = (fst (binom_interval (95 / 100) 2 (1 / 11))
                      + snd (binom_interval (95 / 100) 2 (1 / 11))) / 2,
           ranks_shown = [3, 0], bins = 10, sbc_title = ''p_2''\<rparr>]"
proof -
  have s: "shape2 toy_prior = (2, 2)"
    by (simp add: toy_prior_def)
  show ?thesis
    by (simp add: plot_sbc_def Let_def toy_ranks sbc_endpoints_def sbc_cell_def column_def
        index_def subplot_grid_def subplots_def default_names_2 s upt_rec)
qed

lemma plot_recovery_example:
  "plot_recovery quiet_library two_post two_prior mean_agg (Some spread_agg) None True False =
     Inr [\<lparr>truth = [2, 0], estimate = [1, 3], yerr = Some [0, 0],
           limits = (- 3 / 10, 33 / 10), r2 = None, corr = Some 0, title = ''p_1''\<rparr>,
          \<lparr>truth = [4, 3], estimate = [5, 2], yerr = Some [0, 0],
           limits = (17 / 10, 53 / 10), r2 = None, corr = Some 0, title = ''p_2''\<rparr>]"
  by (simp add: plot_recovery_def Let_def uncertainties_def point_estimates_def along_axis1_def
      recovery_cell_def column_def amin_def amax_def cell_limits_def index_def subplot_grid_def
      subplots_def default_names_2 two_prior_def two_post_def fibre_mean_def quiet_library_def
      mean_agg_def spread_agg_def zero_spread_def upt_rec)

lemma single_parameter_plots:
  "snd (shape2 prior_samples) = 1 \<Longrightarrow> point_agg post_samples = Inr est \<Longrightarrow>
     agg post_samples = Inr u \<Longrightarrow>
     plot_recovery lib post_samples prior_samples point_agg (Some agg) names
       add_corr add_r2 = Inl AttributeError"
  "snd (shape2 prior_samples) = 1 \<Longrightarrow> shape3 post_samples = (fst (shape2 prior_samples), M, 1) \<Longrightarrow>
     plot_sbc binom_interval post_samples prior_samples (Some [name]) 10 level = Inl TypeError"
  by (simp_all add: plot_recovery_def plot_sbc_def Let_def uncertainties_def point_estimates_def
      subplot_grid_def subplots_def sbc_ranks_def np_less_def newaxis1_def broadcast_dim_def
      sbc_endpoints_def sbc_cell_def)

end
